theory Spec2Isabelle
  imports Complex_Main "HOL-Library.AList" "HOL-Library.Char_ord" "HOL-Library.List_Lexorder"
begin

section \<open>The dataset fetch engine of datasets.py\<close>

text \<open>
  The development embeds the functions of \<^verbatim>\<open>src/datasets.py\<close> that list, cache and
  download datasets. Python strings are \<open>string\<close> (characters are the code points below
  256), Python integers are \<open>int\<close>, the dictionaries that the program uses as structs
  (\<^verbatim>\<open>{"name", "key", "size", "md5"}\<close> and \<^verbatim>\<open>{"name", "size", "size_human", "file_count"}\<close>)
  are records, the dictionary \<^verbatim>\<open>dataset_info\<close> that is filled key by key is an association
  list in insertion order. Everything outside the program (the listing endpoint, the
  download server, the aria2c executable, hashlib, humanize, the json module) is a field
  of the record \<open>env\<close>; everything the program changes, or reads and that changes (the
  files and directories, among them the cache files, the clock, standard input), is a
  field of the record \<open>world\<close>, passed in and returned. What the program prints is not
  modelled.
\<close>

subsection \<open>String methods\<close>

definition startswith :: "string \<Rightarrow> string \<Rightarrow> bool" where
  "startswith s p = (take (length p) s = p)"

definition endswith :: "string \<Rightarrow> string \<Rightarrow> bool" where
  "endswith s p = (length p \<le> length s \<and> drop (length s - length p) s = p)"

text \<open>\<^verbatim>\<open>s.split(c)\<close> for a one-character separator: never an empty list.\<close>

fun split :: "char \<Rightarrow> string \<Rightarrow> string list" where
  "split c [] = [[]]"
| "split c (x # xs) =
     (if x = c then [] # split c xs
      else (let r = split c xs in (x # hd r) # tl r))"

text \<open>\<^verbatim>\<open>sep.join(xs)\<close>.\<close>

fun join :: "string \<Rightarrow> string list \<Rightarrow> string" where
  "join sep [] = []"
| "join sep [x] = x"
| "join sep (x # y # ys) = x @ sep @ join sep (y # ys)"

text \<open>\<^verbatim>\<open>s.strip(chars)\<close>: the characters of \<open>chars\<close> are removed from both ends.\<close>

definition strip_chars :: "string \<Rightarrow> string \<Rightarrow> string" where
  "strip_chars chars s =
     rev (dropWhile (\<lambda>c. c \<in> set chars) (rev (dropWhile (\<lambda>c. c \<in> set chars) s)))"

text \<open>
  \<^verbatim>\<open>str.isspace\<close> on the code points below 256: tab to carriage return, the four
  separators 28 to 31, space, NEL and the no-break space.
\<close>

definition isspace :: "char \<Rightarrow> bool" where
  "isspace c = (let n = (of_char c :: nat) in
     (9 \<le> n \<and> n \<le> 13) \<or> (28 \<le> n \<and> n \<le> 32) \<or> n = 133 \<or> n = 160)"

text \<open>\<^verbatim>\<open>s.strip()\<close>.\<close>

definition strip :: "string \<Rightarrow> string" where
  "strip s = rev (dropWhile isspace (rev (dropWhile isspace s)))"

text \<open>
  \<^verbatim>\<open>s.lower()\<close> on the ASCII letters. (Python also lowers the letters beyond ASCII; none
  of them becomes a hexadecimal digit, \<open>y\<close> or \<open>n\<close>, which is all the program asks of a
  lowered string.)
\<close>

definition lower_char :: "char \<Rightarrow> char" where
  "lower_char c = (let n = (of_char c :: nat) in
     if 65 \<le> n \<and> n \<le> 90 then char_of (n + 32) else c)"

definition lower :: "string \<Rightarrow> string" where
  "lower s = map lower_char s"

text \<open>\<^verbatim>\<open>s.replace(a, b)\<close> for one-character \<open>a\<close> and \<open>b\<close>.\<close>

definition replace :: "char \<Rightarrow> char \<Rightarrow> string \<Rightarrow> string" where
  "replace a b s = map (\<lambda>c. if c = a then b else c) s"

subsection \<open>Exceptions\<close>

text \<open>
  The exceptions that the functions below let escape to their caller. A function that
  can raise returns \<open>exn + 'a\<close>, \<open>Inl\<close> the exception.
\<close>

datatype exn =
    ConnectionError
  | HTTPError nat
  | XMLSyntaxError
  | ValueError
  | AttributeError
  | KeyError
  | TypeError
  | EOFError
  | OSError

subsection \<open>Tasks\<close>

definition BASE_URL_RAW :: string where
  "BASE_URL_RAW = ''https://openproblems-data.s3.amazonaws.com/''"

definition TASK_TO_S3_PATH :: "(string \<times> string) list" where
  "TASK_TO_S3_PATH =
     [(''cell_cell_communication_source_target'', ''cell_cell_communication''),
      (''cell_cell_communication_ligand_target'', ''cell_cell_communication'')]"

definition get_s3_task_path :: "string \<Rightarrow> string" where
  "get_s3_task_path task =
     (case map_of TASK_TO_S3_PATH task of Some p \<Rightarrow> p | None \<Rightarrow> task)"

subsection \<open>The listing response\<close>

text \<open>
  One \<^verbatim>\<open>Contents\<close> element of the listing document, as the program reads it.
  \<open>key_elem\<close> and \<open>etag_elem\<close> are \<open>None\<close> when the child element is missing and hold
  its text otherwise; an element without text has the text \<^verbatim>\<open>None\<close> in lxml, modelled
  by the empty string, on which the string methods raise AttributeError.
  \<open>size_elem\<close> is \<open>None\<close> when the child is missing, \<open>Some None\<close> when \<^verbatim>\<open>int(size_elem.text)\<close>
  raises and \<open>Some (Some n)\<close> when it is \<open>n\<close>.
\<close>

record content =
  key_elem :: "string option"
  size_elem :: "int option option"
  etag_elem :: "string option"

record dataset_info =
  d_name :: string
  d_size :: int
  d_size_human :: string
  d_file_count :: int

record file_info =
  f_name :: string
  f_key :: string
  f_size :: int
  f_md5 :: string

definition content_size :: "content \<Rightarrow> exn + int" where
  "content_size c =
     (case size_elem c of
        None \<Rightarrow> Inr 0
      | Some None \<Rightarrow> Inl ValueError
      | Some (Some n) \<Rightarrow> Inr n)"

text \<open>
  Lines 82 to 104 of \<^verbatim>\<open>list_datasets\<close>: the loop that fills \<^verbatim>\<open>dataset_info\<close>, a
  dictionary from the dataset path to the pair of \<^verbatim>\<open>size\<close> and \<^verbatim>\<open>file_count\<close>.
\<close>

definition datasets_prefix :: "string \<Rightarrow> string" where
  "datasets_prefix s3_task = ''resources/'' @ s3_task @ ''/datasets/''"

definition dataset_path_of :: "string \<Rightarrow> string" where
  "dataset_path_of relative_path = join ''/'' (butlast (split CHR ''/'' relative_path))"

fun collect_dataset_info ::
  "string \<Rightarrow> content list \<Rightarrow> (string \<times> int \<times> int) list \<Rightarrow> exn + (string \<times> int \<times> int) list"
where
  "collect_dataset_info s3_task [] info = Inr info"
| "collect_dataset_info s3_task (c # cs) info =
     (case key_elem c of
        None \<Rightarrow> collect_dataset_info s3_task cs info
      | Some key \<Rightarrow>
          if key = [] then Inl AttributeError
          else if \<not> endswith key ''/'' then
            (let prefix = datasets_prefix s3_task in
             if startswith key prefix then
               (let relative_path = drop (length prefix) key;
                    dataset_path = dataset_path_of relative_path in
                if dataset_path \<noteq> [] then
                  (case content_size c of
                     Inl e \<Rightarrow> Inl e
                   | Inr sz \<Rightarrow>
                       collect_dataset_info s3_task cs
                         (case map_of info dataset_path of
                            Some (s, n) \<Rightarrow> AList.update dataset_path (s + sz, n + 1) info
                          | None \<Rightarrow> AList.update dataset_path (sz, 1) info))
                else collect_dataset_info s3_task cs info)
             else collect_dataset_info s3_task cs info)
          else collect_dataset_info s3_task cs info)"

text \<open>
  Lines 107 to 117: one summary per key of the dictionary, the keys sorted. The keys of
  a dictionary are distinct, so the items sorted by key are the same list.
\<close>

definition summaries_of :: "(int \<Rightarrow> string) \<Rightarrow> (string \<times> int \<times> int) list \<Rightarrow> dataset_info list" where
  "summaries_of naturalsize info =
     map (\<lambda>(dataset_path, s, n).
            \<lparr>d_name = dataset_path, d_size = s, d_size_human = naturalsize s, d_file_count = n\<rparr>)
         (sort_key fst info)"

text \<open>Lines 126 to 148 of \<^verbatim>\<open>list_datasets\<close>: the files of one dataset.\<close>

fun collect_files :: "string \<Rightarrow> content list \<Rightarrow> exn + file_info list" where
  "collect_files dataset_prefix [] = Inr []"
| "collect_files dataset_prefix (c # cs) =
     (case key_elem c of
        None \<Rightarrow> collect_files dataset_prefix cs
      | Some key \<Rightarrow>
          if key = [] then Inl AttributeError
          else if startswith key dataset_prefix \<and> \<not> endswith key ''/'' then
            (case content_size c of
               Inl e \<Rightarrow> Inl e
             | Inr sz \<Rightarrow>
                 (case (case etag_elem c of
                          None \<Rightarrow> Inr []
                        | Some t \<Rightarrow> if t = [] then Inl AttributeError
                                    else Inr (strip_chars ''\"'' t)) of
                    Inl e \<Rightarrow> Inl e
                  | Inr etag \<Rightarrow>
                      (case collect_files dataset_prefix cs of
                         Inl e \<Rightarrow> Inl e
                       | Inr files \<Rightarrow>
                           Inr (\<lparr>f_name = last (split CHR ''/'' key), f_key = key,
                                 f_size = sz, f_md5 = etag\<rparr> # files))))
          else collect_files dataset_prefix cs)"

subsection \<open>Paths and the file system\<close>

text \<open>
  A \<^verbatim>\<open>pathlib.Path\<close> relative to the working directory is the list of its components;
  the empty list is the working directory itself. \<^verbatim>\<open>p / s\<close> appends the components of
  \<open>s\<close>, dropping the empty ones and the dots as pathlib does. (A string that starts
  with a slash would replace the path; the program never joins one.)
\<close>

type_synonym path = "string list"

definition path_join :: "path \<Rightarrow> string \<Rightarrow> path" where
  "path_join p s = p @ filter (\<lambda>c. c \<noteq> [] \<and> c \<noteq> ''.'') (split CHR ''/'' s)"

definition path_str :: "path \<Rightarrow> string" where
  "path_str p = (if p = [] then ''.'' else join ''/'' p)"

datatype node = Dir | File string

type_synonym filesystem = "path \<rightharpoonup> node"

definition node_at :: "filesystem \<Rightarrow> path \<Rightarrow> node option" where
  "node_at m p = (if p = [] then Some Dir else m p)"

text \<open>
  \<^verbatim>\<open>Path.mkdir(parents=True, exist_ok=True)\<close>, as pathlib does it. \<^verbatim>\<open>os.mkdir\<close> is tried
  first: a directory that is there is accepted, a file in its place raises; when the
  parent is missing, the parent is made in the same way and then the directory; when
  the parent is a file, \<^verbatim>\<open>os.mkdir\<close> raises. The directories made before a failure stay.
\<close>

function mkdir_parents :: "filesystem \<Rightarrow> path \<Rightarrow> exn option \<times> filesystem" where
  "mkdir_parents m p =
     (case node_at m p of
        Some Dir \<Rightarrow> (None, m)
      | Some (File b) \<Rightarrow> (Some OSError, m)
      | None \<Rightarrow>
          (case node_at m (butlast p) of
             Some Dir \<Rightarrow> (None, m(p \<mapsto> Dir))
           | Some (File b) \<Rightarrow> (Some OSError, m)
           | None \<Rightarrow>
               (case mkdir_parents m (butlast p) of
                  (Some e, m') \<Rightarrow> (Some e, m')
                | (None, m') \<Rightarrow> (None, m'(p \<mapsto> Dir)))))"
  by pat_completeness auto
termination
  by (relation "measure (\<lambda>(m, p). length p)") (auto simp: node_at_def split: if_splits)

declare mkdir_parents.simps [simp del]

text \<open>
  \<^verbatim>\<open>open(p, "w")\<close>, the writes and the close: raises when \<open>p\<close> is a directory or when
  its parent is not one.
\<close>

definition write_file :: "filesystem \<Rightarrow> path \<Rightarrow> string \<Rightarrow> exn + filesystem" where
  "write_file m p text =
     (if node_at m p = Some Dir then Inl OSError
      else if node_at m (butlast p) \<noteq> Some Dir then Inl OSError
      else Inr (m(p \<mapsto> File text)))"

subsection \<open>JSON values\<close>

text \<open>
  What \<^verbatim>\<open>json.load\<close> returns and \<^verbatim>\<open>json.dump\<close> accepts. \<open>JNull\<close> is Python's \<^verbatim>\<open>None\<close>. An
  object is the list of its items; a parsed object has distinct keys, so the first
  item with a key is the item with that key.
\<close>

datatype json =
    JNull
  | JBool bool
  | JInt int
  | JFloat real
  | JStr string
  | JArr "json list"
  | JObj "(string \<times> json) list"

text \<open>Python's truth value of a JSON value (\<^verbatim>\<open>if cached:\<close>, \<^verbatim>\<open>if not files:\<close>).\<close>

fun truthy :: "json \<Rightarrow> bool" where
  "truthy JNull = False"
| "truthy (JBool b) = b"
| "truthy (JInt i) = (i \<noteq> 0)"
| "truthy (JFloat r) = (r \<noteq> 0)"
| "truthy (JStr s) = (s \<noteq> [])"
| "truthy (JArr xs) = (xs \<noteq> [])"
| "truthy (JObj kvs) = (kvs \<noteq> [])"

text \<open>
  The value \<open>x\<close> for which \<^verbatim>\<open>time.time() - x\<close> is defined: a number, or a boolean, which
  Python counts as 0 or 1. On anything else the subtraction raises TypeError.
\<close>

fun number_of :: "json \<Rightarrow> real option" where
  "number_of (JInt i) = Some (real_of_int i)"
| "number_of (JFloat r) = Some r"
| "number_of (JBool b) = Some (if b then 1 else 0)"
| "number_of _ = None"

definition file_to_json :: "file_info \<Rightarrow> json" where
  "file_to_json f =
     JObj [(''name'', JStr (f_name f)), (''key'', JStr (f_key f)),
           (''size'', JInt (f_size f)), (''md5'', JStr (f_md5 f))]"

definition dataset_to_json :: "dataset_info \<Rightarrow> json" where
  "dataset_to_json d =
     JObj [(''name'', JStr (d_name d)), (''size'', JInt (d_size d)),
           (''size_human'', JStr (d_size_human d)), (''file_count'', JInt (d_file_count d))]"

text \<open>
  A cached payload is used as a list of dictionaries with the four keys of a file (or
  of a dataset). The model reads it into records when it is loaded, and raises when it
  does not have this shape; the Python raises KeyError or TypeError later, where it
  first uses what is missing.
\<close>

definition file_of_json :: "json \<Rightarrow> file_info option" where
  "file_of_json j =
     (case j of
        JObj kvs \<Rightarrow>
          (case (map_of kvs ''name'', map_of kvs ''key'', map_of kvs ''size'', map_of kvs ''md5'') of
             (Some (JStr n), Some (JStr k), Some (JInt s), Some (JStr m)) \<Rightarrow>
               Some \<lparr>f_name = n, f_key = k, f_size = s, f_md5 = m\<rparr>
           | _ \<Rightarrow> None)
      | _ \<Rightarrow> None)"

definition dataset_of_json :: "json \<Rightarrow> dataset_info option" where
  "dataset_of_json j =
     (case j of
        JObj kvs \<Rightarrow>
          (case (map_of kvs ''name'', map_of kvs ''size'', map_of kvs ''size_human'',
                 map_of kvs ''file_count'') of
             (Some (JStr n), Some (JInt s), Some (JStr h), Some (JInt c)) \<Rightarrow>
               Some \<lparr>d_name = n, d_size = s, d_size_human = h, d_file_count = c\<rparr>
           | _ \<Rightarrow> None)
      | _ \<Rightarrow> None)"

fun those_all :: "'a option list \<Rightarrow> 'a list option" where
  "those_all [] = Some []"
| "those_all (None # xs) = None"
| "those_all (Some x # xs) = (case those_all xs of None \<Rightarrow> None | Some ys \<Rightarrow> Some (x # ys))"

definition files_of_json :: "json \<Rightarrow> file_info list option" where
  "files_of_json j = (case j of JArr xs \<Rightarrow> those_all (map file_of_json xs) | _ \<Rightarrow> None)"

definition datasets_of_json :: "json \<Rightarrow> dataset_info list option" where
  "datasets_of_json j = (case j of JArr xs \<Rightarrow> those_all (map dataset_of_json xs) | _ \<Rightarrow> None)"

subsection \<open>The environment and the world\<close>

datatype proc_result = Raised | Exited int filesystem

text \<open>
  What \<^verbatim>\<open>requests.get(url, stream=True)\<close> gives: \<open>RequestFailed\<close> when the request,
  \<^verbatim>\<open>raise_for_status\<close> or the reading of the content-length header raises;
  \<open>Stream chunks completed\<close> when the body arrives as \<open>chunks\<close> and then either ends
  (\<open>completed\<close>) or the connection raises.
\<close>

datatype http_result = RequestFailed | Stream "string list" bool

record env =
  aria2_installed :: bool
  aria2c :: "string list \<Rightarrow> filesystem \<Rightarrow> proc_result"
  s3_list :: "string \<Rightarrow> exn + content list"
  http_get :: "string \<Rightarrow> http_result"
  md5_hexdigest :: "string \<Rightarrow> string"
  naturalsize :: "int \<Rightarrow> string"
  dir_st_size :: "path \<Rightarrow> int"
  json_dumps :: "json \<Rightarrow> string"
  json_loads :: "string \<Rightarrow> json option"
  float_minus :: "real \<Rightarrow> real \<Rightarrow> real option"

text \<open>
  \<open>float_minus env a x\<close> is what Python computes for \<^verbatim>\<open>a - x\<close>, where \<open>a\<close> is a double and
  \<open>x\<close> the value of a double, an int or a boolean: the difference rounded to a double,
  or \<open>None\<close> when the subtraction raises (OverflowError, for an int that is too large
  for a double). The difference of two doubles that lie within a factor of two of
  each other is exact.
\<close>

text \<open>
  \<open>fs\<close> holds the files and directories below the working directory, \<open>now\<close> is what
  \<^verbatim>\<open>time.time()\<close> returns (the value of a double; a caller lets time pass by changing it
  between two calls),
  \<open>stdin\<close> the lines still to be read. Two fields only observe: \<open>transfers\<close> lists the
  URLs for which a download was started (aria2c was run or the GET was sent), latest
  first; \<open>prompts\<close> counts the confirmations asked for.
\<close>

record world =
  fs :: filesystem
  now :: real
  stdin :: "string list"
  transfers :: "string list"
  prompts :: nat

definition path_exists :: "world \<Rightarrow> path \<Rightarrow> bool" where
  "path_exists w p = (node_at (fs w) p \<noteq> None)"

definition st_size :: "env \<Rightarrow> world \<Rightarrow> path \<Rightarrow> int option" where
  "st_size env w p =
     (case node_at (fs w) p of
        None \<Rightarrow> None
      | Some Dir \<Rightarrow> Some (dir_st_size env p)
      | Some (File b) \<Rightarrow> Some (int (length b)))"

subsection \<open>The listing cache\<close>

definition get_cache_path :: "string \<Rightarrow> string option \<Rightarrow> world \<Rightarrow> (exn + path) \<times> world" where
  "get_cache_path task dataset_name w =
     (let cache_dir = path_join [''.cache''] task in
      case mkdir_parents (fs w) cache_dir of
        (Some e, m) \<Rightarrow> (Inl e, w\<lparr>fs := m\<rparr>)
      | (None, m) \<Rightarrow>
          (case dataset_name of
             None \<Rightarrow> (Inr (path_join cache_dir ''datasets.json''), w\<lparr>fs := m\<rparr>)
           | Some dn \<Rightarrow>
               if dn \<noteq> [] then
                 (let safe_name = replace CHR ''/'' CHR ''_'' dn in
                  (Inr (path_join cache_dir (safe_name @ ''.json'')), w\<lparr>fs := m\<rparr>))
               else (Inr (path_join cache_dir ''datasets.json''), w\<lparr>fs := m\<rparr>)))"

text \<open>
  \<^verbatim>\<open>load_cache\<close>: every exception (the path is a directory, the text is not JSON, the
  document is not an object, the timestamp is not a number or is an int too large to
  subtract) is swallowed and gives \<^verbatim>\<open>None\<close>. The age of the entry is the difference
  as line 332 computes it, in double arithmetic.
\<close>

definition load_cache :: "env \<Rightarrow> world \<Rightarrow> path \<Rightarrow> json" where
  "load_cache env w cache_path =
     (case node_at (fs w) cache_path of
        None \<Rightarrow> JNull
      | Some Dir \<Rightarrow> JNull
      | Some (File text) \<Rightarrow>
          (case json_loads env text of
             None \<Rightarrow> JNull
           | Some (JObj data) \<Rightarrow>
               (case number_of (case map_of data ''timestamp'' of None \<Rightarrow> JInt 0 | Some t \<Rightarrow> t) of
                  None \<Rightarrow> JNull
                | Some t \<Rightarrow>
                    (case float_minus env (now w) t of
                       None \<Rightarrow> JNull
                     | Some age \<Rightarrow>
                         if age < 3600
                         then (case map_of data ''datasets'' of None \<Rightarrow> JNull | Some d \<Rightarrow> d)
                         else JNull))
           | Some _ \<Rightarrow> JNull))"

definition save_cache :: "env \<Rightarrow> world \<Rightarrow> path \<Rightarrow> json \<Rightarrow> world" where
  "save_cache env w cache_path datasets =
     (let cache_data = JObj [(''timestamp'', JFloat (now w)), (''datasets'', datasets)] in
      case write_file (fs w) cache_path (json_dumps env cache_data) of
        Inl e \<Rightarrow> w
      | Inr m \<Rightarrow> w\<lparr>fs := m\<rparr>)"

subsection \<open>Listing\<close>

datatype listing = Datasets "dataset_info list" | Files "file_info list"

definition list_datasets ::
  "env \<Rightarrow> string \<Rightarrow> string option \<Rightarrow> world \<Rightarrow> (exn + listing) \<times> world"
where
  "list_datasets env task dataset_name w =
     (let s3_task = get_s3_task_path task;
          prefix = datasets_prefix s3_task
      in
      case dataset_name of
        None \<Rightarrow>
          (case get_cache_path task None w of
             (Inl e, w1) \<Rightarrow> (Inl e, w1)
           | (Inr cache_path, w1) \<Rightarrow>
               (let cached = load_cache env w1 cache_path in
                if truthy cached then
                  (case datasets_of_json cached of
                     None \<Rightarrow> (Inl TypeError, w1)
                   | Some ds \<Rightarrow> (Inr (Datasets ds), w1))
                else
                  (case s3_list env prefix of
                     Inl e \<Rightarrow> (Inl e, w1)
                   | Inr contents \<Rightarrow>
                       (case collect_dataset_info s3_task contents [] of
                          Inl e \<Rightarrow> (Inl e, w1)
                        | Inr info \<Rightarrow>
                            (let result = summaries_of (naturalsize env) info in
                             (Inr (Datasets result),
                              save_cache env w1 cache_path (JArr (map dataset_to_json result))))))))
      | Some dn \<Rightarrow>
          (case s3_list env prefix of
             Inl e \<Rightarrow> (Inl e, w)
           | Inr contents \<Rightarrow>
               (let dataset_prefix = datasets_prefix s3_task @ dn @ ''/'' in
                case collect_files dataset_prefix contents of
                  Inl e \<Rightarrow> (Inl e, w)
                | Inr files \<Rightarrow> (Inr (Files files), w))))"

subsection \<open>Fetching one file\<close>

definition check_aria2 :: "env \<Rightarrow> bool" where
  "check_aria2 env = aria2_installed env"

definition is_valid_md5 :: "string \<Rightarrow> bool" where
  "is_valid_md5 expected_md5 =
     (expected_md5 \<noteq> [] \<and> length expected_md5 = 32
      \<and> list_all (\<lambda>c. c \<in> set ''0123456789abcdef'') (lower expected_md5))"

text \<open>Lines 183 to 212 of \<^verbatim>\<open>fetch_file_aria2\<close>: the command line.\<close>

definition aria2_cmd :: "string \<Rightarrow> path \<Rightarrow> string \<Rightarrow> string list" where
  "aria2_cmd download_url local_path expected_md5 =
     [''aria2c'', ''--continue=true'', ''--max-connection-per-server=8'', ''--split=8'',
      ''--file-allocation=none'', ''--auto-file-renaming=false'', ''--allow-overwrite=true'',
      ''--show-console-readout=true'', ''--console-log-level=notice'',
      ''--human-readable=true'', ''--download-result=hide'']
     @ (if is_valid_md5 expected_md5 then [''--checksum=md5='' @ expected_md5] else [])
     @ [''--dir='' @ path_str (butlast local_path),
        ''--out='' @ (if local_path = [] then [] else last local_path),
        download_url]"

text \<open>
  \<^verbatim>\<open>fetch_file_aria2\<close>. Every exception of the \<^verbatim>\<open>try\<close> block (the process cannot be
  started, the file is not there for \<^verbatim>\<open>stat\<close>) ends in \<^verbatim>\<open>return False\<close>.
\<close>

definition fetch_file_aria2 ::
  "env \<Rightarrow> string \<Rightarrow> path \<Rightarrow> string \<Rightarrow> int \<Rightarrow> world \<Rightarrow> bool \<times> world"
where
  "fetch_file_aria2 env download_url local_path expected_md5 expected_size w =
     (if \<not> check_aria2 env then (False, w)
      else
        (let cmd = aria2_cmd download_url local_path expected_md5;
             w1 = w\<lparr>transfers := download_url # transfers w\<rparr>
         in
         case aria2c env cmd (fs w1) of
           Raised \<Rightarrow> (False, w1)
         | Exited returncode m \<Rightarrow>
             (let w2 = w1\<lparr>fs := m\<rparr> in
              if returncode = 0 then
                (case st_size env w2 local_path of
                   None \<Rightarrow> (False, w2)
                 | Some actual_size \<Rightarrow>
                     if actual_size \<noteq> expected_size then (False, w2) else (True, w2))
              else (False, w2))))"

text \<open>
  The \<^verbatim>\<open>except\<close> block of \<^verbatim>\<open>fetch_file_fallback\<close> (lines 306 to 310): the file is
  removed when it exists; \<^verbatim>\<open>unlink\<close> raises on a directory, and that exception leaves
  the function.
\<close>

definition fallback_failed :: "path \<Rightarrow> world \<Rightarrow> (exn + bool) \<times> world" where
  "fallback_failed local_path w =
     (case node_at (fs w) local_path of
        None \<Rightarrow> (Inr False, w)
      | Some (File b) \<Rightarrow> (Inr False, w\<lparr>fs := (fs w)(local_path := None)\<rparr>)
      | Some Dir \<Rightarrow> (Inl OSError, w))"

definition calculate_md5 :: "env \<Rightarrow> world \<Rightarrow> path \<Rightarrow> exn + string" where
  "calculate_md5 env w filepath =
     (case node_at (fs w) filepath of
        Some (File b) \<Rightarrow> Inr (md5_hexdigest env b)
      | _ \<Rightarrow> Inl OSError)"

definition fetch_file_fallback ::
  "env \<Rightarrow> string \<Rightarrow> path \<Rightarrow> string \<Rightarrow> int \<Rightarrow> world \<Rightarrow> (exn + bool) \<times> world"
where
  "fetch_file_fallback env download_url local_path expected_md5 expected_size w =
     (let w1 = w\<lparr>transfers := download_url # transfers w\<rparr> in
      case http_get env download_url of
        RequestFailed \<Rightarrow> fallback_failed local_path w1
      | Stream chunks completed \<Rightarrow>
          (case write_file (fs w1) local_path (concat chunks) of
             Inl e \<Rightarrow> fallback_failed local_path w1
           | Inr m \<Rightarrow>
               (let w2 = w1\<lparr>fs := m\<rparr> in
                if \<not> completed then fallback_failed local_path w2
                else
                  (case st_size env w2 local_path of
                     None \<Rightarrow> fallback_failed local_path w2
                   | Some actual_size \<Rightarrow>
                       if actual_size \<noteq> expected_size then (Inr False, w2)
                       else
                         (case calculate_md5 env w2 local_path of
                            Inl e \<Rightarrow> fallback_failed local_path w2
                          | Inr actual_md5 \<Rightarrow>
                              if actual_md5 \<noteq> expected_md5 then (Inr False, w2)
                              else (Inr True, w2))))))"

subsection \<open>Fetching a dataset\<close>

text \<open>
  \<^verbatim>\<open>download_single_file_worker\<close>. Of its arguments, the index, the total and the lock
  serve the printing only; of the triple it returns, the model keeps the success flag
  (the other two are its arguments).
\<close>

definition download_single_file_worker ::
  "env \<Rightarrow> file_info \<Rightarrow> path \<Rightarrow> world \<Rightarrow> (exn + bool) \<times> world"
where
  "download_single_file_worker env file_info dataset_dir w =
     (let local_path = path_join dataset_dir (f_name file_info);
          download_url = BASE_URL_RAW @ f_key file_info
      in
      if path_exists w local_path \<and> st_size env w local_path = Some (f_size file_info)
      then (Inr True, w)
      else if check_aria2 env then
        (case fetch_file_aria2 env download_url local_path (f_md5 file_info) (f_size file_info) w of
           (success, w1) \<Rightarrow> (Inr success, w1))
      else
        fetch_file_fallback env download_url local_path (f_md5 file_info) (f_size file_info) w)"

text \<open>
  The thread pool of lines 596 to 607. The model runs the workers one after the other
  in the order of submission, each to its end, as the pool does before the \<^verbatim>\<open>with\<close>
  block is left; the interleaving of workers and \<^verbatim>\<open>max_workers\<close> are not modelled.
\<close>

fun run_workers ::
  "env \<Rightarrow> path \<Rightarrow> file_info list \<Rightarrow> world \<Rightarrow> (exn + bool) list \<times> world"
where
  "run_workers env dataset_dir [] w = ([], w)"
| "run_workers env dataset_dir (file_info # rest) w =
     (case download_single_file_worker env file_info dataset_dir w of
        (r, w1) \<Rightarrow>
          (case run_workers env dataset_dir rest w1 of
             (rs, w2) \<Rightarrow> (r # rs, w2)))"

text \<open>
  The loop over \<^verbatim>\<open>as_completed\<close>: \<^verbatim>\<open>future.result()\<close> raises what the worker raised (the
  model takes the first worker that raised, in the order of submission), otherwise the
  successes are counted.
\<close>

fun count_successes :: "(exn + bool) list \<Rightarrow> nat \<Rightarrow> exn + nat" where
  "count_successes [] success_count = Inr success_count"
| "count_successes (Inl e # rs) success_count = Inl e"
| "count_successes (Inr success # rs) success_count =
     count_successes rs (if success then success_count + 1 else success_count)"

text \<open>Lines 554 to 559: the loop over the files when the dataset directory exists.\<close>

fun scan_existing ::
  "world \<Rightarrow> path \<Rightarrow> file_info list \<Rightarrow> string list \<Rightarrow> int \<Rightarrow> string list \<times> int"
where
  "scan_existing w dataset_dir [] existing_files missing_size = (existing_files, missing_size)"
| "scan_existing w dataset_dir (file_info # rest) existing_files missing_size =
     (let local_path = path_join dataset_dir (f_name file_info) in
      if \<not> path_exists w local_path
      then scan_existing w dataset_dir rest existing_files (missing_size + f_size file_info)
      else scan_existing w dataset_dir rest (existing_files @ [f_name file_info]) missing_size)"

text \<open>Lines 548 to 561: the names of the files that exist and the size that is missing.\<close>

definition check_existing :: "world \<Rightarrow> path \<Rightarrow> file_info list \<Rightarrow> string list \<times> int" where
  "check_existing w dataset_dir files =
     (if path_exists w dataset_dir then scan_existing w dataset_dir files [] 0
      else ([], sum_list (map f_size files)))"

text \<open>
  \<^verbatim>\<open>Confirm.ask\<close> of rich, without a default: it reads lines until one is, stripped and
  lowered, \<open>y\<close> or \<open>n\<close>; the end of the input raises EOFError.
\<close>

fun confirm_ask :: "string list \<Rightarrow> (exn + bool) \<times> string list" where
  "confirm_ask [] = (Inl EOFError, [])"
| "confirm_ask (line # rest) =
     (let v = lower (strip line) in
      if v = ''y'' then (Inr True, rest)
      else if v = ''n'' then (Inr False, rest)
      else confirm_ask rest)"

text \<open>Lines 579 to 620 of \<^verbatim>\<open>fetch_entire_dataset\<close>: the directory is created and the files are downloaded.\<close>

definition download_all :: "env \<Rightarrow> path \<Rightarrow> file_info list \<Rightarrow> world \<Rightarrow> (exn + bool) \<times> world" where
  "download_all env dataset_dir files w =
     (case mkdir_parents (fs w) dataset_dir of
        (Some e, m) \<Rightarrow> (Inl e, w\<lparr>fs := m\<rparr>)
      | (None, m) \<Rightarrow>
          (let total_files = length files in
           case run_workers env dataset_dir files (w\<lparr>fs := m\<rparr>) of
             (results, w1) \<Rightarrow>
               (case count_successes results 0 of
                  Inl e \<Rightarrow> (Inl e, w1)
                | Inr success_count \<Rightarrow> (Inr (success_count = total_files), w1))))"

text \<open>Lines 523 to 529: the list of files, from the cache or from the listing, which is then cached.\<close>

definition dataset_files ::
  "env \<Rightarrow> string \<Rightarrow> string \<Rightarrow> world \<Rightarrow> (exn + json) \<times> world"
where
  "dataset_files env task dataset_name w =
     (case get_cache_path task (Some dataset_name) w of
        (Inl e, w1) \<Rightarrow> (Inl e, w1)
      | (Inr cache_path, w1) \<Rightarrow>
          (let files = load_cache env w1 cache_path in
           if files = JNull then
             (case list_datasets env task (Some dataset_name) w1 of
                (Inl e, w2) \<Rightarrow> (Inl e, w2)
              | (Inr (Datasets ds), w2) \<Rightarrow> (Inl TypeError, w2)
              | (Inr (Files fl), w2) \<Rightarrow>
                  (let files = JArr (map file_to_json fl) in
                   (Inr files, save_cache env w2 cache_path files)))
           else (Inr files, w1)))"

text \<open>Lines 535 to 620: what is done with a list of files that is not empty.\<close>

definition fetch_files ::
  "env \<Rightarrow> string \<Rightarrow> bool \<Rightarrow> file_info list \<Rightarrow> world \<Rightarrow> (exn + bool) \<times> world"
where
  "fetch_files env dataset_name skip_confirmation files w =
     (let dataset_dir = path_join [''datasets''] dataset_name in
      case check_existing w dataset_dir files of
        (existing_files, missing_size) \<Rightarrow>
          if \<not> skip_confirmation then
            (if missing_size > 0 then
               (case confirm_ask (stdin w) of
                  (Inl e, rest) \<Rightarrow> (Inl e, w\<lparr>stdin := rest, prompts := Suc (prompts w)\<rparr>)
                | (Inr proceed, rest) \<Rightarrow>
                    (let w1 = w\<lparr>stdin := rest, prompts := Suc (prompts w)\<rparr> in
                     if \<not> proceed then (Inr False, w1)
                     else download_all env dataset_dir files w1))
             else (Inr True, w))
          else download_all env dataset_dir files w)"

definition fetch_entire_dataset ::
  "env \<Rightarrow> string \<Rightarrow> string \<Rightarrow> bool \<Rightarrow> world \<Rightarrow> (exn + bool) \<times> world"
where
  "fetch_entire_dataset env task dataset_name skip_confirmation w =
     (case dataset_files env task dataset_name w of
        (Inl e, w1) \<Rightarrow> (Inl e, w1)
      | (Inr files, w1) \<Rightarrow>
          if \<not> truthy files then (Inr False, w1)
          else
            (case files_of_json files of
               None \<Rightarrow> (Inl TypeError, w1)
             | Some fl \<Rightarrow> fetch_files env dataset_name skip_confirmation fl w1))"

definition fetch_single_file ::
  "env \<Rightarrow> string \<Rightarrow> string \<Rightarrow> string \<Rightarrow> world \<Rightarrow> (exn + bool) \<times> world"
where
  "fetch_single_file env task dataset_name filename w =
     (case list_datasets env task (Some dataset_name) w of
        (Inl e, w1) \<Rightarrow> (Inl e, w1)
      | (Inr (Datasets ds), w1) \<Rightarrow> (Inl TypeError, w1)
      | (Inr (Files files), w1) \<Rightarrow>
          (case find (\<lambda>file_info. f_name file_info = filename) files of
             None \<Rightarrow> (Inr False, w1)
           | Some target_file \<Rightarrow>
               (let dataset_dir = path_join [''datasets''] dataset_name in
                case mkdir_parents (fs w1) dataset_dir of
                  (Some e, m) \<Rightarrow> (Inl e, w1\<lparr>fs := m\<rparr>)
                | (None, m) \<Rightarrow>
                    (let w2 = w1\<lparr>fs := m\<rparr>;
                         local_path = path_join dataset_dir filename;
                         download_url = BASE_URL_RAW @ f_key target_file
                     in
                     if check_aria2 env then
                       (case fetch_file_aria2 env download_url local_path
                               (f_md5 target_file) (f_size target_file) w2 of
                          (success, w3) \<Rightarrow> (Inr success, w3))
                     else
                       fetch_file_fallback env download_url local_path
                         (f_md5 target_file) (f_size target_file) w2))))"

definition fetch_dataset ::
  "env \<Rightarrow> string \<Rightarrow> string \<Rightarrow> string option \<Rightarrow> world \<Rightarrow> (exn + bool) \<times> world"
where
  "fetch_dataset env task dataset_name filename w =
     (case filename of
        None \<Rightarrow> fetch_entire_dataset env task dataset_name False w
      | Some fn \<Rightarrow>
          if fn \<noteq> [] then fetch_single_file env task dataset_name fn w
          else fetch_entire_dataset env task dataset_name False w)"

subsection \<open>Fetching a task\<close>

text \<open>Lines 391 to 408 of \<^verbatim>\<open>fetch_task\<close>: the datasets one after the other.\<close>

fun fetch_each ::
  "env \<Rightarrow> string \<Rightarrow> dataset_info list \<Rightarrow> nat \<Rightarrow> world \<Rightarrow> (exn + nat) \<times> world"
where
  "fetch_each env task [] success_count w = (Inr success_count, w)"
| "fetch_each env task (dataset_info # rest) success_count w =
     (case fetch_entire_dataset env task (d_name dataset_info) True w of
        (Inl e, w1) \<Rightarrow> (Inl e, w1)
      | (Inr success, w1) \<Rightarrow>
          fetch_each env task rest (if success then success_count + 1 else success_count) w1)"

definition fetch_task :: "env \<Rightarrow> string \<Rightarrow> world \<Rightarrow> (exn + bool) \<times> world" where
  "fetch_task env task w =
     (case list_datasets env task None w of
        (Inl e, w1) \<Rightarrow> (Inl e, w1)
      | (Inr (Files fl), w1) \<Rightarrow> (Inl TypeError, w1)
      | (Inr (Datasets datasets), w1) \<Rightarrow>
          if datasets = [] then (Inr False, w1)
          else
            (let total_datasets = length datasets in
             case stdin w1 of
               [] \<Rightarrow> (Inl EOFError, w1\<lparr>prompts := Suc (prompts w1)\<rparr>)
             | line # rest \<Rightarrow>
                 (let response = strip line;
                      w2 = w1\<lparr>stdin := rest, prompts := Suc (prompts w1)\<rparr>
                  in
                  if response \<noteq> ''yes I am sure'' then (Inr False, w2)
                  else
                    (case fetch_each env task datasets 0 w2 of
                       (Inl e, w3) \<Rightarrow> (Inl e, w3)
                     | (Inr success_count, w3) \<Rightarrow>
                         (Inr (success_count = total_datasets), w3)))))"

section \<open>Notions of the statements and sample environments\<close>

text \<open>
  The definitions of this section are not part of the program: they name what the
  statements below speak about, and they give the concrete environments and worlds at
  which the statements are evaluated.
\<close>

text \<open>The sum of the \<^verbatim>\<open>file_count\<close> entries of the dictionary \<^verbatim>\<open>dataset_info\<close>.\<close>

definition counts_total :: "(string \<times> int \<times> int) list \<Rightarrow> int" where
  "counts_total info = sum_list (map (\<lambda>(k, s, n). n) info)"

text \<open>
  A key of a file inside a dataset directory: it does not end in a slash, starts with
  the prefix, and what follows the prefix has a slash after its first character.
\<close>

definition dataset_file_key :: "string \<Rightarrow> string \<Rightarrow> bool" where
  "dataset_file_key prefix key =
     (\<not> endswith key ''/'' \<and> startswith key prefix \<and> CHR ''/'' \<in> set (tl (drop (length prefix) key)))"

text \<open>The keys of a listing response, and those of them that the two readings of claim C5 count.\<close>

definition keys_of :: "content list \<Rightarrow> string list" where
  "keys_of contents = List.map_filter key_elem contents"

definition non_directory_keys :: "string \<Rightarrow> content list \<Rightarrow> string list" where
  "non_directory_keys prefix contents =
     filter (\<lambda>key. \<not> endswith key ''/'' \<and> startswith key prefix) (keys_of contents)"

definition dataset_file_keys :: "string \<Rightarrow> content list \<Rightarrow> string list" where
  "dataset_file_keys prefix contents = filter (dataset_file_key prefix) (keys_of contents)"

text \<open>What \<^verbatim>\<open>list_datasets(task)\<close> finds in its cache.\<close>

definition cached_listing :: "env \<Rightarrow> string \<Rightarrow> world \<Rightarrow> json" where
  "cached_listing env task w =
     (case get_cache_path task None w of
        (Inl e, w1) \<Rightarrow> JNull
      | (Inr cache_path, w1) \<Rightarrow> load_cache env w1 cache_path)"

text \<open>
  The base environment: no aria2c, a listing endpoint without keys, a download server
  that fails, a json that cannot read anything back (so every cache lookup misses), a
  hash function that has the MD5 digests of the empty string and of \<open>abc\<close>, and a
  subtraction that is exact (the sample times are small whole numbers, on which the
  subtraction of doubles is exact). The base world has no files and no input.
\<close>

definition env0 :: env where
  "env0 = \<lparr>aria2_installed = False, aria2c = (\<lambda>cmd m. Raised), s3_list = (\<lambda>prefix. Inr []),
           http_get = (\<lambda>url. RequestFailed),
           md5_hexdigest = (\<lambda>b. if b = [] then ''d41d8cd98f00b204e9800998ecf8427e''
                                 else if b = ''abc'' then ''900150983cd24fb0d6963f7d28e17f72''
                                 else ''00000000000000000000000000000000''),
           naturalsize = (\<lambda>n. ''''), dir_st_size = (\<lambda>p. 4096),
           json_dumps = (\<lambda>j. ''''), json_loads = (\<lambda>t. None),
           float_minus = (\<lambda>a x. Some (a - x))\<rparr>"

definition world0 :: world where
  "world0 = \<lparr>fs = Map.empty, now = 0, stdin = [], transfers = [], prompts = 0\<rparr>"

text \<open>A \<^verbatim>\<open>Contents\<close> element with all three children, and a listing endpoint that holds the given elements under one prefix.\<close>

definition entry :: "string \<Rightarrow> int \<Rightarrow> string \<Rightarrow> content" where
  "entry key n etag = \<lparr>key_elem = Some key, size_elem = Some (Some n), etag_elem = Some etag\<rparr>"

definition serve :: "string \<Rightarrow> content list \<Rightarrow> string \<Rightarrow> exn + content list" where
  "serve prefix contents p = (if p = prefix then Inr contents else Inr [])"

text \<open>Sample listings: a file directly below the prefix of the task; a file in the dataset \<open>a\<close>, a directory marker and a file directly below the prefix; a file of the task \<^verbatim>\<open>cell_cell_communication_source_target\<close>.\<close>

definition direct_child :: "content list" where
  "direct_child = [entry ''resources/denoising/datasets/state.yaml'' 10 ''\"abc\"'']"

definition env_direct_child :: env where
  "env_direct_child = env0\<lparr>s3_list := serve ''resources/denoising/datasets/'' direct_child\<rparr>"

definition three_keys :: "content list" where
  "three_keys = [entry ''resources/denoising/datasets/a/x'' 10 ''\"abc\"'',
                 entry ''resources/denoising/datasets/a/'' 0 ''\"abc\"'',
                 entry ''resources/denoising/datasets/state.yaml'' 5 ''\"abc\"'']"

definition env_three_keys :: env where
  "env_three_keys = env0\<lparr>s3_list := serve ''resources/denoising/datasets/'' three_keys\<rparr>"

definition ccc_keys :: "content list" where
  "ccc_keys = [entry ''resources/cell_cell_communication/datasets/d/x'' 1 ''\"abc\"'']"

definition env_ccc :: env where
  "env_ccc = env0\<lparr>s3_list := serve ''resources/cell_cell_communication/datasets/'' ccc_keys\<rparr>"

text \<open>The document that \<^verbatim>\<open>save_cache\<close> writes at time \<open>t\<close>.\<close>

definition cache_entry :: "real \<Rightarrow> json \<Rightarrow> json" where
  "cache_entry t payload = JObj [(''timestamp'', JFloat t), (''datasets'', payload)]"

text \<open>\<^verbatim>\<open>json.load\<close> reads back the document that \<^verbatim>\<open>json.dump\<close> wrote.\<close>

definition json_round_trip :: "env \<Rightarrow> json \<Rightarrow> bool" where
  "json_round_trip env j = (json_loads env (json_dumps env j) = Some j)"

text \<open>\<^verbatim>\<open>open(p, "w")\<close> does not raise.\<close>

definition writable :: "filesystem \<Rightarrow> path \<Rightarrow> bool" where
  "writable m p = (node_at m p \<noteq> Some Dir \<and> node_at m (butlast p) = Some Dir)"

text \<open>An environment whose json writes the document \<open>j\<close> as \<open>J\<close> and reads it back.\<close>

definition env_json :: "json \<Rightarrow> env" where
  "env_json j = env0\<lparr>json_dumps := (\<lambda>d. if d = j then ''J'' else ''''),
                      json_loads := (\<lambda>t. if t = ''J'' then Some j else None)\<rparr>"

text \<open>A payload of one file, and a world whose cache file \<^verbatim>\<open>c.json\<close> is read at time 5000.\<close>

definition sample_payload :: json where
  "sample_payload = JArr [JObj [(''name'', JStr ''x''), (''key'', JStr ''resources/denoising/datasets/a/x''),
                               (''size'', JInt 10), (''md5'', JStr ''abc'')]]"

definition stale_world :: world where
  "stale_world = world0\<lparr>fs := [[''c.json''] \<mapsto> File ''J''], now := 5000\<rparr>"

text \<open>A string of 32 hexadecimal digits, of either case.\<close>

definition is_hex32 :: "string \<Rightarrow> bool" where
  "is_hex32 s = (length s = 32 \<and> list_all (\<lambda>c. c \<in> set ''0123456789abcdefABCDEF'') s)"

text \<open>The arguments of a command line that ask aria2c for a checksum verification.\<close>

definition checksum_options :: "string list \<Rightarrow> string list" where
  "checksum_options cmd = filter (\<lambda>a. startswith a ''--checksum='') cmd"

text \<open>An environment with an aria2c that exits with 0 and leaves the file \<open>f\<close> with three bytes.\<close>

definition env_aria2 :: env where
  "env_aria2 = env0\<lparr>aria2_installed := True,
                      aria2c := (\<lambda>cmd m. Exited 0 (m([''f''] \<mapsto> File ''abc'')))\<rparr>"

text \<open>Environments whose server sends an empty body, and the body \<open>abc\<close>.\<close>

definition env_empty_body :: env where
  "env_empty_body = env0\<lparr>http_get := (\<lambda>url. Stream [] True)\<rparr>"

definition env_abc_body :: env where
  "env_abc_body = env0\<lparr>http_get := (\<lambda>url. Stream [''abc''] True)\<rparr>"

text \<open>What a call leaves alone: the clock, standard input and the two observations.\<close>

definition same_io :: "world \<Rightarrow> world \<Rightarrow> bool" where
  "same_io w w' = (stdin w' = stdin w \<and> transfers w' = transfers w \<and> prompts w' = prompts w \<and> now w' = now w)"

text \<open>Where the file of a record is stored: \<^verbatim>\<open>Path("datasets") / dataset_name / file_info["name"]\<close>.\<close>

definition local_path_of :: "string \<Rightarrow> file_info \<Rightarrow> path" where
  "local_path_of dataset_name file_info =
     path_join (path_join [''datasets''] dataset_name) (f_name file_info)"

text \<open>
  The list of files of a dataset as \<^verbatim>\<open>fetch_entire_dataset\<close> obtains it in lines 523 to
  529, from the cache or else from the listing, read as records; \<open>None\<close> when that raises
  or when the cache holds something else than a list of such records.
\<close>

definition listed_files :: "env \<Rightarrow> string \<Rightarrow> string \<Rightarrow> world \<Rightarrow> file_info list option" where
  "listed_files env task dataset_name w =
     (case fst (dataset_files env task dataset_name w) of
        Inl e \<Rightarrow> None
      | Inr files \<Rightarrow> files_of_json files)"

text \<open>The next line of standard input is, stripped, the phrase that \<^verbatim>\<open>fetch_task\<close> asks for.\<close>

definition confirmation_given :: "world \<Rightarrow> bool" where
  "confirmation_given w =
     (case stdin w of [] \<Rightarrow> False | line # rest \<Rightarrow> strip line = ''yes I am sure'')"

text \<open>
  The transfer of one file as \<^verbatim>\<open>fetch_single_file\<close> (lines 465 to 473) and the worker do
  it: with aria2c when it is installed, with the fallback otherwise.
\<close>

definition fetch_file ::
  "env \<Rightarrow> string \<Rightarrow> path \<Rightarrow> string \<Rightarrow> int \<Rightarrow> world \<Rightarrow> (exn + bool) \<times> world"
where
  "fetch_file env download_url local_path expected_md5 expected_size w =
     (if check_aria2 env then
        (case fetch_file_aria2 env download_url local_path expected_md5 expected_size w of
           (success, w1) \<Rightarrow> (Inr success, w1))
      else fetch_file_fallback env download_url local_path expected_md5 expected_size w)"

text \<open>A listing with one empty file, and an environment that serves it.\<close>

definition empty_file_key :: "content list" where
  "empty_file_key = [entry ''resources/denoising/datasets/a/x'' 0 ''\"d41d8cd98f00b204e9800998ecf8427e\"'']"

definition env_empty_file :: env where
  "env_empty_file = env0\<lparr>s3_list := serve ''resources/denoising/datasets/'' empty_file_key,
                           http_get := (\<lambda>url. Stream [] True)\<rparr>"

text \<open>The record of the file \<open>x\<close> of the dataset \<open>a\<close> in \<open>three_keys\<close>.\<close>

definition file_x :: file_info where
  "file_x = \<lparr>f_name = ''x'', f_key = ''resources/denoising/datasets/a/x'', f_size = 10, f_md5 = ''abc''\<rparr>"

text \<open>Worlds in which the file \<open>x\<close> is there, with its ten bytes and with three bytes.\<close>

definition world_present :: world where
  "world_present = world0\<lparr>fs := [[''datasets''] \<mapsto> Dir, [''datasets'', ''a''] \<mapsto> Dir,
                                  [''datasets'', ''a'', ''x''] \<mapsto> File ''0123456789'']\<rparr>"

definition world_wrong_size :: world where
  "world_wrong_size = world0\<lparr>fs := [[''datasets''] \<mapsto> Dir, [''datasets'', ''a''] \<mapsto> Dir,
                                     [''datasets'', ''a'', ''x''] \<mapsto> File ''abc'']\<rparr>"

section \<open>Properties\<close>

subsection \<open>Listing\<close>

lemma split_ne: "split c s \<noteq> []"
  by (induction s) (auto simp: Let_def)

lemma tl_split_ne: "tl (split c s) \<noteq> [] \<longleftrightarrow> c \<in> set s"
  by (induction s) (auto simp: Let_def split_ne)

lemma butlast_split_ne: "butlast (split c s) \<noteq> [] \<longleftrightarrow> c \<in> set s"
proof -
  have "butlast xs \<noteq> [] \<longleftrightarrow> tl xs \<noteq> []" for xs :: "string list"
    by (cases xs) auto
  then show ?thesis by (simp add: tl_split_ne)
qed

lemma join_ne: "join sep (x # xs) \<noteq> [] \<longleftrightarrow> x \<noteq> [] \<or> (xs \<noteq> [] \<and> (sep \<noteq> [] \<or> join sep xs \<noteq> []))"
  by (cases xs) auto

lemma dataset_path_of_ne: "dataset_path_of r \<noteq> [] \<longleftrightarrow> CHR ''/'' \<in> set (tl r)"
proof (cases r)
  case Nil
  then show ?thesis by (simp add: dataset_path_of_def)
next
  case (Cons x xs)
  show ?thesis
  proof (cases "x = CHR ''/''")
    case True
    then have "butlast (split CHR ''/'' r) = [] # butlast (split CHR ''/'' xs)"
      using Cons by (simp add: split_ne)
    then show ?thesis
      using Cons butlast_split_ne [of "CHR ''/''" xs]
      by (simp add: dataset_path_of_def join_ne)
  next
    case False
    then have "split CHR ''/'' r = (x # hd (split CHR ''/'' xs)) # tl (split CHR ''/'' xs)"
      using Cons by (simp add: Let_def)
    then show ?thesis
      using Cons tl_split_ne [of "CHR ''/''" xs]
      by (cases "tl (split CHR ''/'' xs)") (simp_all add: dataset_path_of_def join_ne)
  qed
qed

lemma counts_total_update_absent:
  "map_of info k = None \<Longrightarrow> counts_total (AList.update k (s, n) info) = counts_total info + n"
  by (induction info) (auto simp: counts_total_def)

lemma counts_total_update_present:
  "map_of info k = Some (s, n) \<Longrightarrow>
     counts_total (AList.update k (s', n + 1) info) = counts_total info + 1"
  by (induction info) (auto simp: counts_total_def)

lemma collect_dataset_info_total:
  "collect_dataset_info s3_task cs info = Inr info' \<Longrightarrow>
     counts_total info' = counts_total info
       + int (length (filter (dataset_file_key (datasets_prefix s3_task)) (keys_of cs)))"
proof (induction cs arbitrary: info)
  case Nil
  then show ?case by (simp add: keys_of_def)
next
  case (Cons c cs)
  show ?case
  proof (cases "key_elem c")
    case None
    with Cons show ?thesis by (simp add: keys_of_def)
  next
    case (Some key)
    let ?p = "datasets_prefix s3_task"
    have ks: "keys_of (c # cs) = key # keys_of cs"
      using Some by (simp add: keys_of_def)
    show ?thesis
    proof (cases "dataset_file_key ?p key")
      case False
      then have "collect_dataset_info s3_task cs info = Inr info'"
        using Cons.prems Some
        by (auto simp: dataset_file_key_def dataset_path_of_ne Let_def split: if_splits)
      from Cons.IH [OF this] False show ?thesis by (simp add: ks)
    next
      case True
      then obtain sz where sz: "content_size c = Inr sz"
        and rec: "collect_dataset_info s3_task cs
              (case map_of info (dataset_path_of (drop (length ?p) key)) of
                 Some (s, n) \<Rightarrow> AList.update (dataset_path_of (drop (length ?p) key)) (s + sz, n + 1) info
               | None \<Rightarrow> AList.update (dataset_path_of (drop (length ?p) key)) (sz, 1) info) = Inr info'"
        using Cons.prems Some
        by (auto simp: dataset_file_key_def dataset_path_of_ne Let_def split: if_splits sum.splits)
      have "counts_total (case map_of info (dataset_path_of (drop (length ?p) key)) of
                 Some (s, n) \<Rightarrow> AList.update (dataset_path_of (drop (length ?p) key)) (s + sz, n + 1) info
               | None \<Rightarrow> AList.update (dataset_path_of (drop (length ?p) key)) (sz, 1) info)
            = counts_total info + 1"
        by (auto split: option.splits
                 simp: counts_total_update_absent counts_total_update_present)
      with Cons.IH [OF rec] True show ?thesis by (simp add: ks)
    qed
  qed
qed

lemma sum_list_insort_key:
  "sum_list (map f (insort_key g x xs)) = f x + sum_list (map f xs)" for f :: "'a \<Rightarrow> int"
  by (induction xs) auto

lemma sum_list_sort_key:
  "sum_list (map f (sort_key g xs)) = sum_list (map f xs)" for f :: "'a \<Rightarrow> int"
  by (induction xs) (auto simp: sum_list_insort_key)

lemma summaries_of_total:
  "sum_list (map d_file_count (summaries_of ns info)) = counts_total info"
proof -
  have "map d_file_count (summaries_of ns info) = map (\<lambda>(k, s, n). n) (sort_key fst info)"
    by (simp add: summaries_of_def case_prod_unfold comp_def)
  moreover have "sum_list (map (\<lambda>(k, s, n). n) (sort_key fst info)) = sum_list (map (\<lambda>(k, s, n). n) info)"
    by (rule sum_list_sort_key)
  ultimately show ?thesis by (simp add: counts_total_def)
qed

lemma get_s3_denoising: "get_s3_task_path ''denoising'' = ''denoising''"
  by (simp add: get_s3_task_path_def TASK_TO_S3_PATH_def)

lemma datasets_prefix_denoising: "datasets_prefix ''denoising'' = ''resources/denoising/datasets/''"
  by (simp add: datasets_prefix_def)

lemma get_cache_path_denoising:
  "get_cache_path ''denoising'' None world0
     = (Inr [''.cache'', ''denoising'', ''datasets.json''],
        world0\<lparr>fs := [[''.cache''] \<mapsto> Dir, [''.cache'', ''denoising''] \<mapsto> Dir]\<rparr>)"
  by (simp add: get_cache_path_def path_join_def world0_def node_at_def Let_def
      mkdir_parents.simps [of _ "[''.cache'', ''denoising'']"] mkdir_parents.simps [of _ "[''.cache'']"])

lemma cached_listing_world0: "cached_listing env ''denoising'' world0 = JNull"
  by (simp add: cached_listing_def get_cache_path_denoising load_cache_def node_at_def)

lemma list_datasets_fresh:
  assumes "\<not> truthy (cached_listing env task w)"
      and "s3_list env (datasets_prefix (get_s3_task_path task)) = Inr contents"
      and "fst (list_datasets env task None w) = Inr (Datasets ds)"
  shows "\<exists>info. collect_dataset_info (get_s3_task_path task) contents [] = Inr info
           \<and> ds = summaries_of (naturalsize env) info"
  using assms
  by (auto simp: list_datasets_def cached_listing_def Let_def
           split: prod.splits sum.splits if_splits option.splits)

text \<open>
  Claim C5, as the code has it. When the summaries of a task are computed from a listing
  response (the cache held nothing usable), the sum of their \<open>file_count\<close> is the number
  of keys of the response that do not end in a slash, start with the prefix of the task
  and have a slash after the first character of what follows the prefix: the files
  inside a dataset directory. The files directly below the prefix are not counted.
\<close>

theorem list_datasets_file_count_sum:
  assumes "fst (list_datasets env task None w) = Inr (Datasets ds)"
      and "\<not> truthy (cached_listing env task w)"
      and "s3_list env (datasets_prefix (get_s3_task_path task)) = Inr contents"
  shows "sum_list (map d_file_count ds)
           = int (length (dataset_file_keys (datasets_prefix (get_s3_task_path task)) contents))"
proof -
  obtain info where i: "collect_dataset_info (get_s3_task_path task) contents [] = Inr info"
    and ds: "ds = summaries_of (naturalsize env) info"
    using list_datasets_fresh [OF assms(2,3,1)] by blast
  have "counts_total info
          = int (length (filter (dataset_file_key (datasets_prefix (get_s3_task_path task))) (keys_of contents)))"
    using collect_dataset_info_total [OF i] by (simp add: counts_total_def)
  then show ?thesis
    by (simp add: ds summaries_of_total dataset_file_keys_def)
qed

lemma list_datasets_miss:
  assumes "get_cache_path task None w = (Inr cp, w1)" and "load_cache env w1 cp = JNull"
      and "s3_list env (datasets_prefix (get_s3_task_path task)) = Inr contents"
      and "collect_dataset_info (get_s3_task_path task) contents [] = Inr info"
  shows "fst (list_datasets env task None w) = Inr (Datasets (summaries_of (naturalsize env) info))"
  using assms by (simp add: list_datasets_def Let_def)

lemma load_cache_absent: "node_at (fs w) p = None \<Longrightarrow> load_cache env w p = JNull"
  by (simp add: load_cache_def)

lemma collect_direct_child: "collect_dataset_info ''denoising'' direct_child [] = Inr []"
  by (simp add: direct_child_def entry_def datasets_prefix_def startswith_def endswith_def
      dataset_path_of_def)

lemma load_cache_denoising:
  "load_cache env (world0\<lparr>fs := [[''.cache''] \<mapsto> Dir, [''.cache'', ''denoising''] \<mapsto> Dir]\<rparr>)
     [''.cache'', ''denoising'', ''datasets.json''] = JNull"
  by (simp add: load_cache_absent node_at_def)

lemma direct_child_listing:
  "fst (list_datasets env_direct_child ''denoising'' None world0) = Inr (Datasets [])"
proof -
  have r: "s3_list env_direct_child (datasets_prefix (get_s3_task_path ''denoising'')) = Inr direct_child"
    by (simp add: get_s3_denoising datasets_prefix_denoising env_direct_child_def serve_def)
  have c: "collect_dataset_info (get_s3_task_path ''denoising'') direct_child [] = Inr []"
    by (simp add: get_s3_denoising collect_direct_child)
  show ?thesis
    using list_datasets_miss [OF get_cache_path_denoising load_cache_denoising r c]
    by (simp add: summaries_of_def)
qed

text \<open>
  Claim C5 as stated fails: a response with the one key
  \<^verbatim>\<open>resources/denoising/datasets/state.yaml\<close> has one key under the prefix that is not a
  directory, and no summary.
\<close>

theorem list_datasets_file_count_counterexample:
  "fst (list_datasets env_direct_child ''denoising'' None world0) = Inr (Datasets [])
   \<and> \<not> truthy (cached_listing env_direct_child ''denoising'' world0)
   \<and> s3_list env_direct_child (datasets_prefix (get_s3_task_path ''denoising'')) = Inr direct_child
   \<and> sum_list (map d_file_count [])
       \<noteq> int (length (non_directory_keys (datasets_prefix (get_s3_task_path ''denoising'')) direct_child))"
proof -
  have r: "s3_list env_direct_child (datasets_prefix (get_s3_task_path ''denoising'')) = Inr direct_child"
    by (simp add: get_s3_denoising datasets_prefix_denoising env_direct_child_def serve_def)
  have n: "non_directory_keys (datasets_prefix (get_s3_task_path ''denoising'')) direct_child
             = [''resources/denoising/datasets/state.yaml'']"
    by (simp add: non_directory_keys_def keys_of_def direct_child_def entry_def get_s3_denoising
        datasets_prefix_denoising startswith_def endswith_def)
  show ?thesis
    using direct_child_listing r by (simp add: cached_listing_world0 n)
qed

lemma collect_three_keys:
  "collect_dataset_info ''denoising'' three_keys [] = Inr [(''a'', 10, 1)]"
  by (simp add: three_keys_def entry_def datasets_prefix_def startswith_def endswith_def
      dataset_path_of_def content_size_def)

lemma three_keys_listing:
  "fst (list_datasets env_three_keys ''denoising'' None world0)
     = Inr (Datasets [\<lparr>d_name = ''a'', d_size = 10, d_size_human = '''', d_file_count = 1\<rparr>])"
proof -
  have r: "s3_list env_three_keys (datasets_prefix (get_s3_task_path ''denoising'')) = Inr three_keys"
    by (simp add: get_s3_denoising datasets_prefix_denoising env_three_keys_def serve_def)
  have c: "collect_dataset_info (get_s3_task_path ''denoising'') three_keys [] = Inr [(''a'', 10, 1)]"
    by (simp add: get_s3_denoising collect_three_keys)
  show ?thesis
    using list_datasets_miss [OF get_cache_path_denoising load_cache_denoising r c]
    by (simp add: summaries_of_def env_three_keys_def env0_def)
qed

text \<open>The theorem of C5 at a response with a file in a dataset, a directory marker and a file directly below the prefix.\<close>

theorem list_datasets_file_count_sum_witness:
  "fst (list_datasets env_three_keys ''denoising'' None world0)
     = Inr (Datasets [\<lparr>d_name = ''a'', d_size = 10, d_size_human = '''', d_file_count = 1\<rparr>])
   \<and> \<not> truthy (cached_listing env_three_keys ''denoising'' world0)
   \<and> s3_list env_three_keys (datasets_prefix (get_s3_task_path ''denoising'')) = Inr three_keys
   \<and> sum_list (map d_file_count [\<lparr>d_name = ''a'', d_size = 10, d_size_human = '''', d_file_count = 1\<rparr>])
       = int (length (dataset_file_keys (datasets_prefix (get_s3_task_path ''denoising'')) three_keys))"
proof -
  have h1: "\<not> truthy (cached_listing env_three_keys ''denoising'' world0)"
    by (simp add: cached_listing_world0)
  have h2: "s3_list env_three_keys (datasets_prefix (get_s3_task_path ''denoising'')) = Inr three_keys"
    by (simp add: env_three_keys_def serve_def get_s3_denoising datasets_prefix_denoising)
  show ?thesis
    using list_datasets_file_count_sum [OF three_keys_listing h1 h2] three_keys_listing h1 h2
    by simp
qed

lemma collect_files_keys:
  "collect_files dataset_prefix cs = Inr files \<Longrightarrow> f \<in> set files \<Longrightarrow>
     startswith (f_key f) dataset_prefix \<and> \<not> endswith (f_key f) ''/''"
proof (induction cs arbitrary: files)
  case Nil
  then show ?case by simp
next
  case (Cons c cs)
  then show ?case
    by (auto split: option.splits if_splits sum.splits)
qed

text \<open>
  Claim C6, as the code has it. Every file that \<^verbatim>\<open>list_datasets(task, dataset_name)\<close>
  returns has a key that starts with \<^verbatim>\<open>resources/<s3 path of the task>/datasets/<dataset_name>/\<close>
  and does not end in a slash. The S3 path of a task is its name except for the two
  tasks of \<open>TASK_TO_S3_PATH\<close>.
\<close>

theorem list_datasets_files_prefix:
  assumes "fst (list_datasets env task (Some dataset_name) w) = Inr (Files files)"
      and "f \<in> set files"
  shows "startswith (f_key f)
           (''resources/'' @ get_s3_task_path task @ ''/datasets/'' @ dataset_name @ ''/'')
         \<and> \<not> endswith (f_key f) ''/''"
proof -
  have "collect_files (datasets_prefix (get_s3_task_path task) @ dataset_name @ ''/'')
          (case s3_list env (datasets_prefix (get_s3_task_path task)) of Inr cs \<Rightarrow> cs | Inl e \<Rightarrow> [])
        = Inr files"
    using assms(1)
    by (auto simp: list_datasets_def Let_def split: sum.splits)
  from collect_files_keys [OF this assms(2)] show ?thesis
    by (simp add: datasets_prefix_def)
qed

lemma files_three_keys:
  "fst (list_datasets env_three_keys ''denoising'' (Some ''a'') world0)
     = Inr (Files [\<lparr>f_name = ''x'', f_key = ''resources/denoising/datasets/a/x'',
                     f_size = 10, f_md5 = ''abc''\<rparr>])"
  by (simp add: list_datasets_def get_s3_denoising datasets_prefix_denoising Let_def
      env_three_keys_def serve_def three_keys_def entry_def startswith_def
      endswith_def content_size_def strip_chars_def)

text \<open>The theorem of C6 at the file \<open>x\<close> of the dataset \<open>a\<close>.\<close>

theorem list_datasets_files_prefix_witness:
  "fst (list_datasets env_three_keys ''denoising'' (Some ''a'') world0)
     = Inr (Files [\<lparr>f_name = ''x'', f_key = ''resources/denoising/datasets/a/x'',
                     f_size = 10, f_md5 = ''abc''\<rparr>])
   \<and> startswith ''resources/denoising/datasets/a/x'' ''resources/denoising/datasets/a/''
   \<and> \<not> endswith ''resources/denoising/datasets/a/x'' ''/''"
  using list_datasets_files_prefix [OF files_three_keys, of "\<lparr>f_name = ''x'', f_key = ''resources/denoising/datasets/a/x'',
                     f_size = 10, f_md5 = ''abc''\<rparr>"] files_three_keys
  by (simp add: get_s3_denoising)

text \<open>
  Claim C6 as stated, with the name of the task in the prefix, fails for the task
  \<^verbatim>\<open>cell_cell_communication_source_target\<close>, whose files are listed under
  \<^verbatim>\<open>resources/cell_cell_communication/\<close>.
\<close>

theorem list_datasets_files_prefix_counterexample:
  "fst (list_datasets env_ccc ''cell_cell_communication_source_target'' (Some ''d'') world0)
     = Inr (Files [\<lparr>f_name = ''x'', f_key = ''resources/cell_cell_communication/datasets/d/x'',
                     f_size = 1, f_md5 = ''abc''\<rparr>])
   \<and> \<not> startswith ''resources/cell_cell_communication/datasets/d/x''
         (''resources/'' @ ''cell_cell_communication_source_target'' @ ''/datasets/'' @ ''d'' @ ''/'')"
  by (simp add: list_datasets_def get_s3_task_path_def TASK_TO_S3_PATH_def datasets_prefix_def
      Let_def env_ccc_def serve_def ccc_keys_def entry_def startswith_def
      endswith_def content_size_def strip_chars_def)

subsection \<open>The listing cache\<close>

lemma write_file_writable: "writable m p \<Longrightarrow> write_file m p text = Inr (m(p \<mapsto> File text))"
  by (simp add: writable_def write_file_def)

lemma node_at_written: "writable m p \<Longrightarrow> node_at (m(p \<mapsto> n)) p = Some n"
  by (auto simp: node_at_def writable_def)

lemma save_cache_writable:
  "writable (fs w) p \<Longrightarrow>
     save_cache env w p payload
       = w\<lparr>fs := (fs w)(p \<mapsto> File (json_dumps env (cache_entry (now w) payload)))\<rparr>"
  by (simp add: save_cache_def write_file_writable cache_entry_def)

lemma load_cache_entry:
  assumes "node_at (fs w) p = Some (File text)"
      and "json_loads env text = Some (JObj data)"
      and "map_of data ''timestamp'' = Some ts" and "number_of ts = Some t"
  shows "load_cache env w p
           = (case float_minus env (now w) t of
                None \<Rightarrow> JNull
              | Some age \<Rightarrow>
                  if age < 3600
                  then (case map_of data ''datasets'' of None \<Rightarrow> JNull | Some d \<Rightarrow> d)
                  else JNull)"
  using assms by (simp add: load_cache_def)

text \<open>
  What \<^verbatim>\<open>load_cache\<close> returns after \<^verbatim>\<open>save_cache\<close> follows the difference that the doubles
  give, also where it is rounded: when the rounded difference is 3600, the payload is
  not returned, whatever the exact difference is.
\<close>

lemma load_after_save:
  assumes "writable (fs w) p" and "json_round_trip env (cache_entry t1 payload)"
      and "float_minus env t2 t1 = Some age"
  shows "load_cache env ((save_cache env (w\<lparr>now := t1\<rparr>) p payload)\<lparr>now := t2\<rparr>) p
           = (if age < 3600 then payload else JNull)"
proof -
  let ?w = "(save_cache env (w\<lparr>now := t1\<rparr>) p payload)\<lparr>now := t2\<rparr>"
  have n: "node_at (fs ?w) p = Some (File (json_dumps env (cache_entry t1 payload)))"
    using assms(1) by (simp add: save_cache_writable node_at_written)
  have l: "json_loads env (json_dumps env (cache_entry t1 payload))
             = Some (JObj [(''timestamp'', JFloat t1), (''datasets'', payload)])"
    using assms(2) by (simp add: json_round_trip_def cache_entry_def)
  have "load_cache env ?w p
          = (case float_minus env (now ?w) t1 of
               None \<Rightarrow> JNull
             | Some age \<Rightarrow>
                 if age < 3600
                 then (case map_of [(''timestamp'', JFloat t1), (''datasets'', payload)] ''datasets'' of
                         None \<Rightarrow> JNull | Some d \<Rightarrow> d)
                 else JNull)"
    by (rule load_cache_entry [OF n l, of "JFloat t1" t1]) simp_all
  then show ?thesis by (simp add: assms(3))
qed

lemma load_after_save_rounded_up:
  assumes "writable (fs w) p" and "json_round_trip env (cache_entry t1 payload)"
      and "float_minus env t2 t1 = Some 3600"
  shows "load_cache env ((save_cache env (w\<lparr>now := t1\<rparr>) p payload)\<lparr>now := t2\<rparr>) p = JNull"
  using load_after_save [OF assms] by simp

lemma load_cache_overflow:
  assumes "node_at (fs w) p = Some (File text)"
      and "json_loads env text = Some (JObj data)"
      and "map_of data ''timestamp'' = Some ts" and "number_of ts = Some t"
      and "float_minus env (now w) t = None"
  shows "load_cache env w p = JNull"
  using load_cache_entry [OF assms(1-4)] assms(5) by simp

text \<open>
  Claim C3. Where the subtraction of line 332 is exact (the two times are doubles within
  a factor of two of each other, as a clock reading of today and a timestamp of the
  last hours are), a payload saved at time \<open>t1\<close> (the cache file can be written, and json
  reads back what it wrote) is what \<^verbatim>\<open>load_cache\<close> returns at time \<open>t2\<close> when
  \<open>t2 - t1 < 3600\<close>, and \<^verbatim>\<open>None\<close> otherwise; so a payload that is not \<^verbatim>\<open>None\<close> comes back
  exactly when less than 3600 seconds have passed. And whatever a cache file holds as
  payload, when its timestamp lies 3600 seconds or more in the past \<^verbatim>\<open>load_cache\<close>
  returns \<^verbatim>\<open>None\<close>.
\<close>

theorem cache_round_trip_and_expiry:
  "(writable (fs w) p \<and> json_round_trip env (cache_entry t1 payload)
      \<and> float_minus env t2 t1 = Some (t2 - t1) \<longrightarrow>
      load_cache env ((save_cache env (w\<lparr>now := t1\<rparr>) p payload)\<lparr>now := t2\<rparr>) p
        = (if t2 - t1 < 3600 then payload else JNull)
      \<and> (payload \<noteq> JNull \<longrightarrow>
           (load_cache env ((save_cache env (w\<lparr>now := t1\<rparr>) p payload)\<lparr>now := t2\<rparr>) p = payload
              \<longleftrightarrow> t2 - t1 < 3600)))
   \<and> (node_at (fs w') p' = Some (File text) \<and> json_loads env' text = Some (JObj data)
        \<and> map_of data ''timestamp'' = Some ts \<and> number_of ts = Some t
        \<and> float_minus env' (now w') t = Some (now w' - t)
        \<and> 3600 \<le> now w' - t \<longrightarrow> load_cache env' w' p' = JNull)"
proof (intro conjI impI)
  assume a: "writable (fs w) p \<and> json_round_trip env (cache_entry t1 payload)
      \<and> float_minus env t2 t1 = Some (t2 - t1)"
  then show r: "load_cache env ((save_cache env (w\<lparr>now := t1\<rparr>) p payload)\<lparr>now := t2\<rparr>) p
        = (if t2 - t1 < 3600 then payload else JNull)"
    by (simp add: load_after_save)
  assume "payload \<noteq> JNull"
  with r show "(load_cache env ((save_cache env (w\<lparr>now := t1\<rparr>) p payload)\<lparr>now := t2\<rparr>) p = payload)
                 = (t2 - t1 < 3600)"
    by auto
next
  assume "node_at (fs w') p' = Some (File text) \<and> json_loads env' text = Some (JObj data)
        \<and> map_of data ''timestamp'' = Some ts \<and> number_of ts = Some t
        \<and> float_minus env' (now w') t = Some (now w' - t)
        \<and> 3600 \<le> now w' - t"
  then show "load_cache env' w' p' = JNull"
    by (simp add: load_cache_entry)
qed

text \<open>
  The theorem of C3 at a payload with one file, saved at time 1000 and loaded at time
  2000, and at a cache file of time 1000 read at time 5000.
\<close>

theorem cache_round_trip_and_expiry_witness:
  "writable (fs world0) [''c.json'']
   \<and> json_round_trip (env_json (cache_entry 1000 sample_payload)) (cache_entry 1000 sample_payload)
   \<and> float_minus (env_json (cache_entry 1000 sample_payload)) 2000 1000 = Some (2000 - 1000)
   \<and> sample_payload \<noteq> JNull
   \<and> load_cache (env_json (cache_entry 1000 sample_payload))
        ((save_cache (env_json (cache_entry 1000 sample_payload)) (world0\<lparr>now := 1000\<rparr>)
            [''c.json''] sample_payload)\<lparr>now := 2000\<rparr>) [''c.json'']
       = sample_payload
   \<and> node_at (fs stale_world) [''c.json''] = Some (File ''J'')
   \<and> json_loads (env_json (cache_entry 1000 sample_payload)) ''J''
       = Some (JObj [(''timestamp'', JFloat 1000), (''datasets'', sample_payload)])
   \<and> float_minus (env_json (cache_entry 1000 sample_payload)) (now stale_world) 1000
       = Some (now stale_world - 1000)
   \<and> 3600 \<le> now stale_world - 1000
   \<and> load_cache (env_json (cache_entry 1000 sample_payload)) stale_world [''c.json''] = JNull"
proof -
  let ?e = "env_json (cache_entry 1000 sample_payload)"
  have h1: "writable (fs world0) [''c.json'']"
    by (simp add: writable_def world0_def node_at_def)
  have h2: "json_round_trip ?e (cache_entry 1000 sample_payload)"
    by (simp add: json_round_trip_def env_json_def)
  have f: "float_minus ?e a x = Some (a - x)" for a x
    by (simp add: env_json_def env0_def)
  have h3: "sample_payload \<noteq> JNull"
    by (simp add: sample_payload_def)
  have h4: "node_at (fs stale_world) [''c.json''] = Some (File ''J'')"
    by (simp add: stale_world_def node_at_def)
  have h5: "json_loads ?e ''J'' = Some (JObj [(''timestamp'', JFloat 1000), (''datasets'', sample_payload)])"
    by (simp add: env_json_def cache_entry_def)
  have h6: "map_of [(''timestamp'', JFloat 1000), (''datasets'', sample_payload)] ''timestamp''
              = Some (JFloat 1000)"
    by simp
  have h7: "number_of (JFloat 1000) = Some 1000"
    by simp
  have h8: "3600 \<le> now stale_world - 1000"
    by (simp add: stale_world_def)
  note t = cache_round_trip_and_expiry [of world0 "[''c.json'']" ?e 1000 sample_payload 2000
        stale_world "[''c.json'']" "''J''" ?e
        "[(''timestamp'', JFloat 1000), (''datasets'', sample_payload)]" "JFloat 1000" 1000]
  have c1: "load_cache ?e ((save_cache ?e (world0\<lparr>now := 1000\<rparr>) [''c.json''] sample_payload)\<lparr>now := 2000\<rparr>)
              [''c.json''] = (if (2000::real) - 1000 < 3600 then sample_payload else JNull)"
    by (rule conjunct1 [OF mp [OF conjunct1 [OF t] conjI [OF h1 conjI [OF h2 f]]]])
  have c2: "load_cache ?e stale_world [''c.json''] = JNull"
    by (rule mp [OF conjunct2 [OF t]
          conjI [OF h4 conjI [OF h5 conjI [OF h6 conjI [OF h7 conjI [OF f h8]]]]]])
  have c1': "load_cache ?e ((save_cache ?e (world0\<lparr>now := 1000\<rparr>) [''c.json''] sample_payload)\<lparr>now := 2000\<rparr>)
              [''c.json''] = sample_payload"
    using c1 by simp
  show ?thesis
    by (intro conjI h1 h2 f h3 c1' h4 h5 h8 c2)
qed

subsection \<open>Fetching one file\<close>

lemma mem_codes: "c \<in> set xs \<longleftrightarrow> (of_char c :: nat) \<in> set (map of_char xs)"
  by (auto simp: image_iff)

lemma of_char_lower_char:
  "(of_char (lower_char c) :: nat)
     = (if 65 \<le> (of_char c :: nat) \<and> (of_char c :: nat) \<le> 90 then of_char c + 32 else of_char c)"
  by (simp add: lower_char_def Let_def)

lemma codes_lower_hex:
  "(n::nat) \<in> set (map of_char ''0123456789abcdef'')
     \<longleftrightarrow> (48 \<le> n \<and> n \<le> 57) \<or> (97 \<le> n \<and> n \<le> 102)"
  by (simp del: of_char_eq_iff) presburger

lemma codes_any_hex:
  "(n::nat) \<in> set (map of_char ''0123456789abcdefABCDEF'')
     \<longleftrightarrow> (48 \<le> n \<and> n \<le> 57) \<or> (97 \<le> n \<and> n \<le> 102) \<or> (65 \<le> n \<and> n \<le> 70)"
  by (simp del: of_char_eq_iff) presburger

lemma lower_char_hex:
  "lower_char c \<in> set ''0123456789abcdef'' \<longleftrightarrow> c \<in> set ''0123456789abcdefABCDEF''"
proof -
  define n where "n = (of_char c :: nat)"
  define k where "k = (of_char (lower_char c) :: nat)"
  have k: "k = (if 65 \<le> n \<and> n \<le> 90 then n + 32 else n)"
    by (simp add: k_def n_def of_char_lower_char)
  have "lower_char c \<in> set ''0123456789abcdef'' \<longleftrightarrow> (48 \<le> k \<and> k \<le> 57) \<or> (97 \<le> k \<and> k \<le> 102)"
    unfolding k_def by (subst mem_codes) (rule codes_lower_hex)
  moreover have "c \<in> set ''0123456789abcdefABCDEF''
      \<longleftrightarrow> (48 \<le> n \<and> n \<le> 57) \<or> (97 \<le> n \<and> n \<le> 102) \<or> (65 \<le> n \<and> n \<le> 70)"
    unfolding n_def by (subst mem_codes) (rule codes_any_hex)
  moreover have "(48 \<le> k \<and> k \<le> 57) \<or> (97 \<le> k \<and> k \<le> 102)
      \<longleftrightarrow> (48 \<le> n \<and> n \<le> 57) \<or> (97 \<le> n \<and> n \<le> 102) \<or> (65 \<le> n \<and> n \<le> 70)"
    unfolding k by (cases "65 \<le> n \<and> n \<le> 90") auto
  ultimately show ?thesis by blast
qed

lemma is_valid_md5_iff: "is_valid_md5 s \<longleftrightarrow> is_hex32 s"
proof -
  have "list_all (\<lambda>c. c \<in> set ''0123456789abcdef'') (lower s)
          \<longleftrightarrow> list_all (\<lambda>c. c \<in> set ''0123456789abcdefABCDEF'') s"
    unfolding lower_def list_all_iff using lower_char_hex by auto
  then show ?thesis
    by (auto simp: is_valid_md5_def is_hex32_def)
qed

lemma checksum_options_aria2_cmd:
  "checksum_options (aria2_cmd (BASE_URL_RAW @ key) local_path expected_md5)
     = (if is_valid_md5 expected_md5 then [''--checksum=md5='' @ expected_md5] else [])"
  by (simp add: checksum_options_def aria2_cmd_def startswith_def BASE_URL_RAW_def)

lemma fetch_file_aria2_success:
  assumes "check_aria2 env"
      and "aria2c env (aria2_cmd download_url local_path expected_md5) (fs w) = Exited 0 m"
      and "st_size env (w\<lparr>fs := m\<rparr>) local_path = Some expected_size"
  shows "fst (fetch_file_aria2 env download_url local_path expected_md5 expected_size w) = True"
  using assms by (simp add: fetch_file_aria2_def st_size_def Let_def)

text \<open>
  Claim C1, as the code has it by design, for the accelerated backend. The command line
  asks aria2c to verify the checksum exactly when the checksum is 32 hexadecimal digits,
  lower or upper case; for any other checksum (a multipart token, the empty string) it
  carries no checksum option. Whatever the checksum is, the call returns \<^verbatim>\<open>True\<close> when
  aria2c exits with 0 and leaves a file of the expected size.
\<close>

theorem aria2_checksum_gating:
  "checksum_options (aria2_cmd (BASE_URL_RAW @ key) local_path expected_md5)
     = (if is_hex32 expected_md5 then [''--checksum=md5='' @ expected_md5] else [])
   \<and> (check_aria2 env
        \<and> aria2c env (aria2_cmd download_url local_path' md5') (fs w) = Exited 0 m
        \<and> st_size env (w\<lparr>fs := m\<rparr>) local_path' = Some expected_size
        \<longrightarrow> fst (fetch_file_aria2 env download_url local_path' md5' expected_size w) = True)"
  by (simp add: checksum_options_aria2_cmd is_valid_md5_iff fetch_file_aria2_success)

text \<open>The theorem of C1 at the multipart token \<^verbatim>\<open>abc123-2\<close>.\<close>

theorem aria2_checksum_gating_witness:
  "\<not> is_hex32 ''abc123-2''
   \<and> checksum_options (aria2_cmd (BASE_URL_RAW @ ''k'') [''f''] ''abc123-2'') = []
   \<and> check_aria2 env_aria2
   \<and> aria2c env_aria2 (aria2_cmd (BASE_URL_RAW @ ''k'') [''f''] ''abc123-2'') (fs world0)
        = Exited 0 ((fs world0)([''f''] \<mapsto> File ''abc''))
   \<and> st_size env_aria2 (world0\<lparr>fs := (fs world0)([''f''] \<mapsto> File ''abc'')\<rparr>) [''f''] = Some 3
   \<and> fst (fetch_file_aria2 env_aria2 (BASE_URL_RAW @ ''k'') [''f''] ''abc123-2'' 3 world0) = True"
proof -
  have h0: "\<not> is_hex32 ''abc123-2''"
    by (simp add: is_hex32_def)
  have h1: "check_aria2 env_aria2"
    by (simp add: check_aria2_def env_aria2_def env0_def)
  have h2: "aria2c env_aria2 (aria2_cmd (BASE_URL_RAW @ ''k'') [''f''] ''abc123-2'') (fs world0)
        = Exited 0 ((fs world0)([''f''] \<mapsto> File ''abc''))"
    by (simp add: env_aria2_def env0_def)
  have h3: "st_size env_aria2 (world0\<lparr>fs := (fs world0)([''f''] \<mapsto> File ''abc'')\<rparr>) [''f''] = Some 3"
    by (simp add: st_size_def node_at_def)
  show ?thesis
    using aria2_checksum_gating [of "''k''" "[''f'']" "''abc123-2''" env_aria2
        "BASE_URL_RAW @ ''k''" "[''f'']" "''abc123-2''" world0
        "(fs world0)([''f''] \<mapsto> File ''abc'')" 3] h0 h1 h2 h3
    by simp
qed

lemma fallback_empty_body:
  "fetch_file_fallback env_empty_body url [''f''] expected_md5 0 world0
     = (Inr (expected_md5 = ''d41d8cd98f00b204e9800998ecf8427e''),
        world0\<lparr>fs := [[''f''] \<mapsto> File []], transfers := [url]\<rparr>)"
  by (simp add: fetch_file_fallback_def env_empty_body_def env0_def world0_def write_file_def
      node_at_def st_size_def calculate_md5_def Let_def)

text \<open>
  Claim C1 as stated fails twice. A checksum of 32 upper-case digits is not 32
  lower-case digits, and the accelerated backend verifies it. With the fallback
  backend, a download of the empty file that succeeds with the checksum of the empty
  file fails with the token \<^verbatim>\<open>abc123-2\<close> and with the empty checksum: the checksum alone
  makes the call return \<^verbatim>\<open>False\<close>.
\<close>

theorem checksum_gating_counterexample:
  "checksum_options (aria2_cmd (BASE_URL_RAW @ ''k'') [''f''] ''D41D8CD98F00B204E9800998ECF8427E'')
     = [''--checksum=md5=D41D8CD98F00B204E9800998ECF8427E'']
   \<and> fst (fetch_file_fallback env_empty_body (BASE_URL_RAW @ ''k'') [''f'']
            ''d41d8cd98f00b204e9800998ecf8427e'' 0 world0) = Inr True
   \<and> fst (fetch_file_fallback env_empty_body (BASE_URL_RAW @ ''k'') [''f''] ''abc123-2'' 0 world0)
       = Inr False
   \<and> fst (fetch_file_fallback env_empty_body (BASE_URL_RAW @ ''k'') [''f''] '''' 0 world0)
       = Inr False"
proof -
  have "is_hex32 ''D41D8CD98F00B204E9800998ECF8427E''"
    by (simp add: is_hex32_def)
  then show ?thesis
    by (simp add: checksum_options_aria2_cmd is_valid_md5_iff fallback_empty_body)
qed

lemma fallback_abc_body:
  "fetch_file_fallback env_abc_body url [''f''] expected_md5 expected_size world0
     = (Inr (expected_size = 3 \<and> expected_md5 = ''900150983cd24fb0d6963f7d28e17f72''),
        world0\<lparr>fs := [[''f''] \<mapsto> File ''abc''], transfers := [url]\<rparr>)"
  by (simp add: fetch_file_fallback_def env_abc_body_def env0_def world0_def write_file_def
      node_at_def st_size_def calculate_md5_def Let_def)

text \<open>
  Claim C2 against the code. The server sends the three bytes \<open>abc\<close>. When five bytes are
  expected, and when three bytes with another hash are expected, \<^verbatim>\<open>fetch_file_fallback\<close>
  returns \<^verbatim>\<open>False\<close> and the file is still there: lines 288 and 298 return without the
  \<^verbatim>\<open>unlink\<close> of the \<^verbatim>\<open>except\<close> block.
\<close>

theorem fallback_mismatch_keeps_file:
  "fst (fetch_file_fallback env_abc_body (BASE_URL_RAW @ ''k'') [''f'']
          ''900150983cd24fb0d6963f7d28e17f72'' 5 world0) = Inr False
   \<and> path_exists (snd (fetch_file_fallback env_abc_body (BASE_URL_RAW @ ''k'') [''f'']
          ''900150983cd24fb0d6963f7d28e17f72'' 5 world0)) [''f'']
   \<and> fst (fetch_file_fallback env_abc_body (BASE_URL_RAW @ ''k'') [''f'']
          ''ffffffffffffffffffffffffffffffff'' 3 world0) = Inr False
   \<and> path_exists (snd (fetch_file_fallback env_abc_body (BASE_URL_RAW @ ''k'') [''f'']
          ''ffffffffffffffffffffffffffffffff'' 3 world0)) [''f'']"
  by (simp add: fallback_abc_body path_exists_def node_at_def)

subsection \<open>What the cache and the listing leave alone\<close>

lemmas run_defs =
  fetch_task_def list_datasets_def get_cache_path_def path_join_def
  get_s3_task_path_def TASK_TO_S3_PATH_def datasets_prefix_def Let_def
  env0_def world0_def serve_def entry_def
  mkdir_parents.simps node_at_def load_cache_def save_cache_def write_file_def
  startswith_def endswith_def dataset_path_of_def content_size_def summaries_of_def
  fetch_entire_dataset_def dataset_files_def replace_def fetch_single_file_def
  strip_chars_def files_of_json_def file_of_json_def file_to_json_def dataset_to_json_def
  fetch_files_def check_existing_def path_exists_def download_all_def
  download_single_file_worker_def st_size_def check_aria2_def fetch_file_fallback_def
  calculate_md5_def BASE_URL_RAW_def fallback_failed_def strip_def isspace_def

lemma same_io_refl: "same_io w w"
  by (simp add: same_io_def)

lemma same_io_fs: "same_io w (w'\<lparr>fs := m\<rparr>) = same_io w w'"
  by (simp add: same_io_def)

lemma same_io_trans: "same_io w w1 \<Longrightarrow> same_io w1 w2 \<Longrightarrow> same_io w w2"
  by (simp add: same_io_def)

lemma get_cache_path_io: "same_io w (snd (get_cache_path task dn w))"
  by (auto simp: get_cache_path_def Let_def same_io_def split: prod.splits option.splits)

lemma save_cache_io: "same_io w (save_cache env w p j)"
  by (auto simp: save_cache_def same_io_def split: sum.splits)

lemma list_datasets_io: "same_io w (snd (list_datasets env task dn w))"
proof (cases dn)
  case None
  obtain r w1 where g: "get_cache_path task None w = (r, w1)"
    by (cases "get_cache_path task None w")
  have io: "same_io w w1"
    using get_cache_path_io [of w task None] g by simp
  show ?thesis
    using io save_cache_io [of w1]
    by (auto simp: list_datasets_def None g Let_def split: sum.splits option.splits
             intro: same_io_trans)
next
  case (Some d)
  then show ?thesis
    by (auto simp: list_datasets_def Let_def same_io_refl split: sum.splits)
qed

lemma dataset_files_io: "same_io w (snd (dataset_files env task dn w))"
proof -
  obtain r w1 where g: "get_cache_path task (Some dn) w = (r, w1)"
    by (cases "get_cache_path task (Some dn) w")
  have io: "same_io w w1"
    using get_cache_path_io [of w task "Some dn"] g by simp
  obtain r2 w2 where l: "list_datasets env task (Some dn) w1 = (r2, w2)"
    by (cases "list_datasets env task (Some dn) w1")
  have io2: "same_io w w2"
    using list_datasets_io [of w1 env task "Some dn"] l io by (auto intro: same_io_trans)
  show ?thesis
    using io io2 save_cache_io [of w2]
    by (auto simp: dataset_files_def g l Let_def split: sum.splits listing.splits
             intro: same_io_trans)
qed

lemma mkdir_parents_other:
  "q \<noteq> [] \<Longrightarrow> p \<noteq> [] \<Longrightarrow> hd q \<noteq> hd p \<Longrightarrow> snd (mkdir_parents m p) q = m q"
proof (induction m p rule: mkdir_parents.induct)
  case (1 m p)
  have qp: "q \<noteq> p" using "1.prems" by auto
  show ?case
  proof (cases "node_at m p")
    case (Some n)
    then show ?thesis
      by (cases n) (simp_all add: mkdir_parents.simps [of m p])
  next
    case None
    show ?thesis
    proof (cases "node_at m (butlast p)")
      case (Some n)
      then show ?thesis
        using None qp by (cases n) (simp_all add: mkdir_parents.simps [of m p])
    next
      case N2: None
      then have bl: "butlast p \<noteq> []"
        by (auto simp: node_at_def)
      then have "hd (butlast p) = hd p"
        by (cases p) auto
      with "1.IH" [OF None N2] "1.prems" bl
      have "snd (mkdir_parents m (butlast p)) q = m q" by simp
      then show ?thesis
        using None N2 qp
        by (cases "mkdir_parents m (butlast p)")
           (auto simp: mkdir_parents.simps [of m p] split: option.splits)
    qed
  qed
qed

lemma path_join_hd: "p \<noteq> [] \<Longrightarrow> path_join p s \<noteq> [] \<and> hd (path_join p s) = hd p"
  by (simp add: path_join_def)

lemma get_cache_path_other:
  "q \<noteq> [] \<Longrightarrow> hd q \<noteq> ''.cache'' \<Longrightarrow> fs (snd (get_cache_path task dn w)) q = fs w q"
  using mkdir_parents_other [of q "path_join [''.cache''] task" "fs w"]
    path_join_hd [of "[''.cache'']" task]
  by (auto simp: get_cache_path_def Let_def split: prod.splits option.splits)

lemma get_cache_path_hd:
  "get_cache_path task dn w = (Inr cp, w1) \<Longrightarrow> cp \<noteq> [] \<and> hd cp = ''.cache''"
  using path_join_hd [of "path_join [''.cache''] task"] path_join_hd [of "[''.cache'']" task]
  by (auto simp: get_cache_path_def Let_def split: prod.splits option.splits if_splits)

lemma save_cache_other: "q \<noteq> cp \<Longrightarrow> fs (save_cache env w cp j) q = fs w q"
  by (auto simp: save_cache_def write_file_def split: sum.splits)

lemma list_datasets_other:
  assumes "q \<noteq> []" and "hd q \<noteq> ''.cache''"
  shows "fs (snd (list_datasets env task dn w)) q = fs w q"
proof (cases dn)
  case None
  obtain r w1 where g: "get_cache_path task None w = (r, w1)"
    by (cases "get_cache_path task None w")
  have f1: "fs w1 q = fs w q"
    using get_cache_path_other [OF assms, of task None w] g by simp
  have "q \<noteq> cp" if "r = Inr cp" for cp
    using get_cache_path_hd [of task None w cp w1] g that assms by auto
  then show ?thesis
    using f1
    by (auto simp: list_datasets_def None g Let_def save_cache_other
             split: sum.splits option.splits)
next
  case (Some d)
  then show ?thesis
    by (auto simp: list_datasets_def Let_def split: sum.splits)
qed

lemma dataset_files_other:
  assumes "q \<noteq> []" and "hd q \<noteq> ''.cache''"
  shows "fs (snd (dataset_files env task dn w)) q = fs w q"
proof -
  obtain r w1 where g: "get_cache_path task (Some dn) w = (r, w1)"
    by (cases "get_cache_path task (Some dn) w")
  have f1: "fs w1 q = fs w q"
    using get_cache_path_other [OF assms, of task "Some dn" w] g by simp
  have ne: "q \<noteq> cp" if "r = Inr cp" for cp
    using get_cache_path_hd [of task "Some dn" w cp w1] g that assms by auto
  obtain r2 w2 where l: "list_datasets env task (Some dn) w1 = (r2, w2)"
    by (cases "list_datasets env task (Some dn) w1")
  have f2: "fs w2 q = fs w q"
    using list_datasets_other [OF assms, of env task "Some dn" w1] l f1 by simp
  show ?thesis
    using f1 f2 ne
    by (auto simp: dataset_files_def g l Let_def save_cache_other
             split: sum.splits listing.splits)
qed

lemma datasets_path:
  "path_join [''datasets''] dn \<noteq> [] \<and> hd (path_join [''datasets''] dn) = ''datasets''
   \<and> path_join (path_join [''datasets''] dn) s \<noteq> []
   \<and> hd (path_join (path_join [''datasets''] dn) s) = ''datasets''"
  using path_join_hd [of "[''datasets'']" dn] path_join_hd [of "path_join [''datasets''] dn" s]
  by simp

lemma node_at_dataset_files:
  assumes "q \<noteq> []" and "hd q = ''datasets''"
  shows "node_at (fs (snd (dataset_files env task dn w))) q = node_at (fs w) q"
  using dataset_files_other [of q env task dn w] assms by (simp add: node_at_def)

subsection \<open>Fetching a dataset\<close>

lemma file_of_json_file: "file_of_json (file_to_json f) = Some f"
  by (simp add: file_of_json_def file_to_json_def)

lemma those_all_files: "those_all (map file_of_json (map file_to_json files)) = Some files"
  by (induction files) (simp_all add: file_of_json_file)

lemma files_of_json_files: "files_of_json (JArr (map file_to_json files)) = Some files"
  using those_all_files [of files] by (simp add: files_of_json_def)

lemma worker_present:
  "st_size env w (path_join d (f_name fi)) = Some (f_size fi) \<Longrightarrow>
     download_single_file_worker env fi d w = (Inr True, w)"
  by (auto simp: download_single_file_worker_def Let_def path_exists_def st_size_def
           split: option.splits)

lemma run_workers_present:
  "list_all (\<lambda>f. st_size env w (path_join d (f_name f)) = Some (f_size f)) files \<Longrightarrow>
     run_workers env d files w = (map (\<lambda>f. Inr True) files, w)"
  by (induction files) (simp_all add: worker_present)

lemma count_successes_all:
  "count_successes (map (\<lambda>f. Inr True) files) n = Inr (n + length files)"
  by (induction files arbitrary: n) simp_all

lemma scan_existing_eq:
  "scan_existing w d files existing_files missing_size
     = (existing_files @ map f_name (filter (\<lambda>f. path_exists w (path_join d (f_name f))) files),
        missing_size + sum_list (map f_size (filter (\<lambda>f. \<not> path_exists w (path_join d (f_name f))) files)))"
  by (induction files arbitrary: existing_files missing_size) (simp_all add: Let_def)

lemma check_existing_eq:
  "path_exists w d \<Longrightarrow>
     check_existing w d files
       = (map f_name (filter (\<lambda>f. path_exists w (path_join d (f_name f))) files),
          sum_list (map f_size (filter (\<lambda>f. \<not> path_exists w (path_join d (f_name f))) files)))"
  by (simp add: check_existing_def scan_existing_eq)

lemma filter_none: "list_all P xs \<Longrightarrow> filter (\<lambda>x. \<not> P x) xs = []"
  by (induction xs) auto

lemma fetch_files_all_exist:
  assumes "path_exists w (path_join [''datasets''] dn)"
      and "list_all (\<lambda>f. path_exists w (local_path_of dn f)) files"
  shows "fetch_files env dn False files w = (Inr True, w)"
proof -
  have "filter (\<lambda>f. \<not> path_exists w (path_join (path_join [''datasets''] dn) (f_name f))) files = []"
    using filter_none [OF assms(2)] by (simp add: local_path_of_def)
  then show ?thesis
    using assms(1) by (simp add: fetch_files_def check_existing_eq Let_def)
qed

lemma download_all_present:
  assumes "node_at (fs w) d = Some Dir"
      and "list_all (\<lambda>f. st_size env w (path_join d (f_name f)) = Some (f_size f)) files"
  shows "download_all env d files w = (Inr True, w)"
proof -
  have "mkdir_parents (fs w) d = (None, fs w)"
    using assms(1) by (simp add: mkdir_parents.simps [of "fs w" d])
  then show ?thesis
    using run_workers_present [OF assms(2)]
    by (simp add: download_all_def count_successes_all)
qed

lemma st_size_exists: "st_size env w p = Some n \<Longrightarrow> path_exists w p"
  by (auto simp: st_size_def path_exists_def split: option.splits)

lemma fetch_files_present:
  assumes "node_at (fs w) (path_join [''datasets''] dn) = Some Dir"
      and "list_all (\<lambda>f. st_size env w (local_path_of dn f) = Some (f_size f)) files"
  shows "fetch_files env dn skip files w = (Inr True, w)"
proof (cases skip)
  case True
  have "download_all env (path_join [''datasets''] dn) files w = (Inr True, w)"
    using assms by (intro download_all_present) (simp_all add: local_path_of_def)
  then show ?thesis
    using True by (simp add: fetch_files_def Let_def split: prod.splits)
next
  case False
  have "path_exists w (path_join [''datasets''] dn)"
    using assms(1) by (simp add: path_exists_def)
  moreover have "list_all (\<lambda>f. path_exists w (local_path_of dn f)) files"
    using assms(2) by (auto simp: list_all_iff intro: st_size_exists)
  ultimately show ?thesis
    using False fetch_files_all_exist by simp
qed

lemma those_all_empty: "those_all ys = Some zs \<Longrightarrow> (zs = []) = (ys = [])"
  by (cases ys) (auto split: option.splits elim: those_all.elims)

lemma files_of_json_truthy: "files_of_json j = Some files \<Longrightarrow> truthy j = (files \<noteq> [])"
  by (cases j) (auto simp: files_of_json_def dest: those_all_empty)

lemma fetch_entire_dataset_listed:
  assumes "listed_files env task dn w = Some files" and "files \<noteq> []"
  shows "fetch_entire_dataset env task dn skip w
           = fetch_files env dn skip files (snd (dataset_files env task dn w))"
proof -
  obtain r w1 where d: "dataset_files env task dn w = (r, w1)"
    by (cases "dataset_files env task dn w")
  obtain j where r: "r = Inr j" and j: "files_of_json j = Some files"
    using assms(1) d by (cases r) (simp_all add: listed_files_def)
  have "truthy j"
    using files_of_json_truthy [OF j] assms(2) by simp
  then show ?thesis
    by (simp add: fetch_entire_dataset_def d r j)
qed

lemma fetch_entire_dataset_empty:
  assumes "listed_files env task dn w = Some []"
  shows "fetch_entire_dataset env task dn skip w = (Inr False, snd (dataset_files env task dn w))"
proof -
  obtain r w1 where d: "dataset_files env task dn w = (r, w1)"
    by (cases "dataset_files env task dn w")
  obtain j where r: "r = Inr j" and j: "files_of_json j = Some []"
    using assms d by (cases r) (simp_all add: listed_files_def)
  have "\<not> truthy j"
    using files_of_json_truthy [OF j] by simp
  then show ?thesis
    by (simp add: fetch_entire_dataset_def d r)
qed

lemma st_size_dataset_files:
  assumes "q \<noteq> []" and "hd q = ''datasets''"
  shows "st_size env' (snd (dataset_files env task dn w)) q = st_size env' w q"
  using node_at_dataset_files [OF assms, of env task dn w] by (simp add: st_size_def)

lemma path_exists_dataset_files:
  assumes "q \<noteq> []" and "hd q = ''datasets''"
  shows "path_exists (snd (dataset_files env task dn w)) q = path_exists w q"
  using node_at_dataset_files [OF assms, of env task dn w] by (simp add: path_exists_def)

lemma local_path_of_datasets: "local_path_of dn f \<noteq> [] \<and> hd (local_path_of dn f) = ''datasets''"
  using datasets_path [of dn "f_name f"] by (simp add: local_path_of_def)

text \<open>
  Claim C4. A worker that finds its file with the expected size returns success and
  changes nothing, whatever the checksum of the record and the content of the file
  are. And when the list of files of a dataset (from the cache or from the listing) is
  not empty, the dataset directory is there and every file of the list exists with its
  expected size, \<^verbatim>\<open>fetch_entire_dataset\<close> returns \<^verbatim>\<open>True\<close>, with and without confirmation,
  and starts no transfer. (An empty list is the case of claim C9.)
\<close>

theorem present_files_are_not_fetched:
  "(st_size env w (path_join d (f_name file_info)) = Some (f_size file_info) \<longrightarrow>
      download_single_file_worker env file_info d w = (Inr True, w))
   \<and> (listed_files env' task dn w' = Some files
        \<and> files \<noteq> []
        \<and> node_at (fs w') (path_join [''datasets''] dn) = Some Dir
        \<and> list_all (\<lambda>f. st_size env' w' (local_path_of dn f) = Some (f_size f)) files
      \<longrightarrow> fst (fetch_entire_dataset env' task dn skip w') = Inr True
          \<and> transfers (snd (fetch_entire_dataset env' task dn skip w')) = transfers w')"
proof (intro conjI impI)
  assume "st_size env w (path_join d (f_name file_info)) = Some (f_size file_info)"
  then show "download_single_file_worker env file_info d w = (Inr True, w)"
    by (rule worker_present)
next
  let ?w1 = "snd (dataset_files env' task dn w')"
  assume a: "listed_files env' task dn w' = Some files
        \<and> files \<noteq> []
        \<and> node_at (fs w') (path_join [''datasets''] dn) = Some Dir
        \<and> list_all (\<lambda>f. st_size env' w' (local_path_of dn f) = Some (f_size f)) files"
  have d: "node_at (fs ?w1) (path_join [''datasets''] dn) = Some Dir"
    using a node_at_dataset_files [of "path_join [''datasets''] dn" env' task dn w']
      datasets_path [of dn] by simp
  have l: "list_all (\<lambda>f. st_size env' ?w1 (local_path_of dn f) = Some (f_size f)) files"
    using a by (simp add: list_all_iff st_size_dataset_files local_path_of_datasets)
  have r: "fetch_entire_dataset env' task dn skip w' = (Inr True, ?w1)"
    using a fetch_files_present [OF d l] by (simp add: fetch_entire_dataset_listed)
  show "fst (fetch_entire_dataset env' task dn skip w') = Inr True"
    by (simp add: r)
  show "transfers (snd (fetch_entire_dataset env' task dn skip w')) = transfers w'"
    using dataset_files_io [of w' env' task dn] by (simp add: r same_io_def)
qed

lemma dataset_files_a:
  "listed_files env_three_keys ''denoising'' ''a'' world_present = Some [file_x]"
proof -
  have "fst (dataset_files env_three_keys ''denoising'' ''a'' world_present)
          = Inr (JArr (map file_to_json [file_x]))"
    by (simp add: run_defs env_three_keys_def three_keys_def world_present_def file_x_def)
  then show ?thesis
    using files_of_json_files [of "[file_x]"] by (simp add: listed_files_def)
qed

text \<open>The theorem of C4 at the dataset \<open>a\<close> whose only file is there with its ten bytes.\<close>

theorem present_files_are_not_fetched_witness:
  "st_size env_three_keys world_present (path_join [''datasets'', ''a''] (f_name file_x))
     = Some (f_size file_x)
   \<and> download_single_file_worker env_three_keys file_x [''datasets'', ''a''] world_present
       = (Inr True, world_present)
   \<and> listed_files env_three_keys ''denoising'' ''a'' world_present = Some [file_x]
   \<and> [file_x] \<noteq> []
   \<and> node_at (fs world_present) (path_join [''datasets''] ''a'') = Some Dir
   \<and> list_all (\<lambda>f. st_size env_three_keys world_present (local_path_of ''a'' f) = Some (f_size f))
        [file_x]
   \<and> fst (fetch_entire_dataset env_three_keys ''denoising'' ''a'' True world_present) = Inr True
   \<and> transfers (snd (fetch_entire_dataset env_three_keys ''denoising'' ''a'' True world_present))
       = transfers world_present"
proof -
  note t = present_files_are_not_fetched [where env = env_three_keys and w = world_present
      and d = "[''datasets'', ''a'']" and file_info = file_x and env' = env_three_keys
      and task = "''denoising''" and dn = "''a''" and w' = world_present and files = "[file_x]"
      and skip = True]
  have a1: "st_size env_three_keys world_present (path_join [''datasets'', ''a''] (f_name file_x))
     = Some (f_size file_x)"
    by (simp add: st_size_def path_join_def world_present_def node_at_def file_x_def)
  have b2: "[file_x] \<noteq> []" by simp
  have b3: "node_at (fs world_present) (path_join [''datasets''] ''a'') = Some Dir"
    by (simp add: path_join_def world_present_def node_at_def)
  have b4: "list_all (\<lambda>f. st_size env_three_keys world_present (local_path_of ''a'' f) = Some (f_size f))
        [file_x]"
    by (simp add: st_size_def local_path_of_def path_join_def world_present_def node_at_def file_x_def)
  have c1: "download_single_file_worker env_three_keys file_x [''datasets'', ''a''] world_present
       = (Inr True, world_present)"
    by (rule mp [OF conjunct1 [OF t] a1])
  have c2: "fst (fetch_entire_dataset env_three_keys ''denoising'' ''a'' True world_present) = Inr True
   \<and> transfers (snd (fetch_entire_dataset env_three_keys ''denoising'' ''a'' True world_present))
       = transfers world_present"
    by (rule mp [OF conjunct2 [OF t] conjI [OF dataset_files_a conjI [OF b2 conjI [OF b3 b4]]]])
  show ?thesis
    by (intro conjI a1 c1 dataset_files_a b2 b3 b4 conjunct1 [OF c2] conjunct2 [OF c2])
qed

text \<open>
  Claim C10. When the dataset directory exists, \<^verbatim>\<open>existing_files\<close> are the names of the
  files for which something exists at the destination, and \<^verbatim>\<open>missing_size\<close> sums the
  sizes of the others: the size on disk is not looked at. So when the list of files is
  not empty and every file exists, of whatever size, the call with confirmation returns
  \<^verbatim>\<open>True\<close> at once: no transfer is started, no confirmation is asked for, no line is read.
\<close>

theorem existing_files_count_as_downloaded:
  "(path_exists w d \<longrightarrow>
      check_existing w d files
        = (map f_name (filter (\<lambda>f. path_exists w (path_join d (f_name f))) files),
           sum_list (map f_size (filter (\<lambda>f. \<not> path_exists w (path_join d (f_name f))) files))))
   \<and> (listed_files env task dn w' = Some files'
        \<and> files' \<noteq> []
        \<and> path_exists w' (path_join [''datasets''] dn)
        \<and> list_all (\<lambda>f. path_exists w' (local_path_of dn f)) files'
      \<longrightarrow> fst (fetch_entire_dataset env task dn False w') = Inr True
          \<and> same_io w' (snd (fetch_entire_dataset env task dn False w')))"
proof (intro conjI impI)
  assume "path_exists w d"
  then show "check_existing w d files
        = (map f_name (filter (\<lambda>f. path_exists w (path_join d (f_name f))) files),
           sum_list (map f_size (filter (\<lambda>f. \<not> path_exists w (path_join d (f_name f))) files)))"
    by (rule check_existing_eq)
next
  let ?w1 = "snd (dataset_files env task dn w')"
  assume a: "listed_files env task dn w' = Some files'
        \<and> files' \<noteq> []
        \<and> path_exists w' (path_join [''datasets''] dn)
        \<and> list_all (\<lambda>f. path_exists w' (local_path_of dn f)) files'"
  have d: "path_exists ?w1 (path_join [''datasets''] dn)"
    using a path_exists_dataset_files [of "path_join [''datasets''] dn" env task dn w']
      datasets_path [of dn] by simp
  have l: "list_all (\<lambda>f. path_exists ?w1 (local_path_of dn f)) files'"
    using a by (simp add: list_all_iff path_exists_dataset_files local_path_of_datasets)
  have r: "fetch_entire_dataset env task dn False w' = (Inr True, ?w1)"
    using a fetch_files_all_exist [OF d l] by (simp add: fetch_entire_dataset_listed)
  show "fst (fetch_entire_dataset env task dn False w') = Inr True"
    by (simp add: r)
  show "same_io w' (snd (fetch_entire_dataset env task dn False w'))"
    using dataset_files_io [of w' env task dn] by (simp add: r)
qed

lemma dataset_files_a_wrong_size:
  "listed_files env_three_keys ''denoising'' ''a'' world_wrong_size = Some [file_x]"
proof -
  have "fst (dataset_files env_three_keys ''denoising'' ''a'' world_wrong_size)
          = Inr (JArr (map file_to_json [file_x]))"
    by (simp add: run_defs env_three_keys_def three_keys_def world_wrong_size_def file_x_def)
  then show ?thesis
    using files_of_json_files [of "[file_x]"] by (simp add: listed_files_def)
qed

text \<open>The theorem of C10 where the file \<open>x\<close>, of expected size 10, is there with three bytes.\<close>

theorem existing_files_count_as_downloaded_witness:
  "path_exists world_wrong_size [''datasets'', ''a'']
   \<and> check_existing world_wrong_size [''datasets'', ''a''] [file_x] = ([''x''], 0)
   \<and> st_size env_three_keys world_wrong_size (local_path_of ''a'' file_x) = Some 3
   \<and> f_size file_x = 10
   \<and> listed_files env_three_keys ''denoising'' ''a'' world_wrong_size = Some [file_x]
   \<and> [file_x] \<noteq> []
   \<and> path_exists world_wrong_size (path_join [''datasets''] ''a'')
   \<and> list_all (\<lambda>f. path_exists world_wrong_size (local_path_of ''a'' f)) [file_x]
   \<and> fst (fetch_entire_dataset env_three_keys ''denoising'' ''a'' False world_wrong_size) = Inr True
   \<and> same_io world_wrong_size
        (snd (fetch_entire_dataset env_three_keys ''denoising'' ''a'' False world_wrong_size))"
proof -
  note t = existing_files_count_as_downloaded [where w = world_wrong_size
      and d = "[''datasets'', ''a'']" and files = "[file_x]" and env = env_three_keys
      and task = "''denoising''" and dn = "''a''" and w' = world_wrong_size and files' = "[file_x]"]
  have a1: "path_exists world_wrong_size [''datasets'', ''a'']"
    by (simp add: path_exists_def world_wrong_size_def node_at_def)
  have s: "st_size env_three_keys world_wrong_size (local_path_of ''a'' file_x) = Some 3"
    by (simp add: st_size_def local_path_of_def path_join_def world_wrong_size_def node_at_def file_x_def)
  have z: "f_size file_x = 10"
    by (simp add: file_x_def)
  have b2: "[file_x] \<noteq> []" by simp
  have b3: "path_exists world_wrong_size (path_join [''datasets''] ''a'')"
    by (simp add: path_exists_def path_join_def world_wrong_size_def node_at_def)
  have b4: "list_all (\<lambda>f. path_exists world_wrong_size (local_path_of ''a'' f)) [file_x]"
    by (simp add: path_exists_def local_path_of_def path_join_def world_wrong_size_def node_at_def file_x_def)
  have c1: "check_existing world_wrong_size [''datasets'', ''a''] [file_x] = ([''x''], 0)"
    using mp [OF conjunct1 [OF t] a1]
    by (simp add: path_exists_def path_join_def world_wrong_size_def node_at_def file_x_def)
  have c2: "fst (fetch_entire_dataset env_three_keys ''denoising'' ''a'' False world_wrong_size) = Inr True
   \<and> same_io world_wrong_size
        (snd (fetch_entire_dataset env_three_keys ''denoising'' ''a'' False world_wrong_size))"
    by (rule mp [OF conjunct2 [OF t] conjI [OF dataset_files_a_wrong_size conjI [OF b2 conjI [OF b3 b4]]]])
  show ?thesis
    by (intro conjI a1 c1 s z dataset_files_a_wrong_size b2 b3 b4 conjunct1 [OF c2] conjunct2 [OF c2])
qed

text \<open>
  Claim C9. When the listing of the datasets of a task is empty, \<^verbatim>\<open>fetch_task\<close> returns
  \<^verbatim>\<open>False\<close> and has neither read a line nor asked for a confirmation nor started a
  transfer. When the list of files of a dataset (from the cache or from the listing)
  is empty, \<^verbatim>\<open>fetch_entire_dataset\<close> returns \<^verbatim>\<open>False\<close>, likewise.
\<close>

theorem empty_listings_fail:
  "(fst (list_datasets env task None w) = Inr (Datasets []) \<longrightarrow>
      fst (fetch_task env task w) = Inr False \<and> same_io w (snd (fetch_task env task w)))
   \<and> (listed_files env' task' dn w' = Some [] \<longrightarrow>
      fst (fetch_entire_dataset env' task' dn skip w') = Inr False
      \<and> same_io w' (snd (fetch_entire_dataset env' task' dn skip w')))"
proof (intro conjI impI)
  assume a: "fst (list_datasets env task None w) = Inr (Datasets [])"
  then have r: "fetch_task env task w = (Inr False, snd (list_datasets env task None w))"
    by (cases "list_datasets env task None w") (simp add: fetch_task_def)
  show "fst (fetch_task env task w) = Inr False"
    by (simp add: r)
  show "same_io w (snd (fetch_task env task w))"
    by (simp add: r list_datasets_io)
next
  assume a: "listed_files env' task' dn w' = Some []"
  then have r: "fetch_entire_dataset env' task' dn skip w'
                  = (Inr False, snd (dataset_files env' task' dn w'))"
    by (rule fetch_entire_dataset_empty)
  show "fst (fetch_entire_dataset env' task' dn skip w') = Inr False"
    by (simp add: r)
  show "same_io w' (snd (fetch_entire_dataset env' task' dn skip w'))"
    by (simp add: r dataset_files_io)
qed

lemma list_datasets_env0:
  "fst (list_datasets env0 ''denoising'' None world0) = Inr (Datasets [])"
  by (simp add: run_defs)

lemma dataset_files_env0: "listed_files env0 ''denoising'' ''a'' world0 = Some []"
proof -
  have "fst (dataset_files env0 ''denoising'' ''a'' world0) = Inr (JArr [])"
    by (simp add: run_defs)
  then show ?thesis
    by (simp add: listed_files_def files_of_json_def)
qed

text \<open>The theorem of C9 where the listing endpoint has no key at all.\<close>

theorem empty_listings_fail_witness:
  "fst (list_datasets env0 ''denoising'' None world0) = Inr (Datasets [])
   \<and> fst (fetch_task env0 ''denoising'' world0) = Inr False
   \<and> same_io world0 (snd (fetch_task env0 ''denoising'' world0))
   \<and> listed_files env0 ''denoising'' ''a'' world0 = Some []
   \<and> fst (fetch_entire_dataset env0 ''denoising'' ''a'' True world0) = Inr False
   \<and> same_io world0 (snd (fetch_entire_dataset env0 ''denoising'' ''a'' True world0))"
proof -
  note t = empty_listings_fail [where env = env0 and task = "''denoising''" and w = world0
      and env' = env0 and task' = "''denoising''" and dn = "''a''" and w' = world0 and skip = True]
  have c1: "fst (fetch_task env0 ''denoising'' world0) = Inr False
     \<and> same_io world0 (snd (fetch_task env0 ''denoising'' world0))"
    by (rule mp [OF conjunct1 [OF t] list_datasets_env0])
  have c2: "fst (fetch_entire_dataset env0 ''denoising'' ''a'' True world0) = Inr False
     \<and> same_io world0 (snd (fetch_entire_dataset env0 ''denoising'' ''a'' True world0))"
    by (rule mp [OF conjunct2 [OF t] dataset_files_env0])
  show ?thesis
    by (intro conjI list_datasets_env0 dataset_files_env0 conjunct1 [OF c1] conjunct2 [OF c1]
        conjunct1 [OF c2] conjunct2 [OF c2])
qed

subsection \<open>Fetching a single file\<close>

lemma fetch_file_aria2_transfers:
  "transfers (snd (fetch_file_aria2 env url p m n w)) = transfers w
   \<or> transfers (snd (fetch_file_aria2 env url p m n w)) = url # transfers w"
  by (simp add: fetch_file_aria2_def Let_def split: proc_result.splits option.splits)

lemma fallback_failed_transfers: "transfers (snd (fallback_failed p w)) = transfers w"
  by (simp add: fallback_failed_def split: option.splits node.splits)

lemma fetch_file_fallback_transfers:
  "transfers (snd (fetch_file_fallback env url p m n w)) = url # transfers w"
  by (simp add: fetch_file_fallback_def Let_def fallback_failed_transfers
           split: http_result.splits sum.splits option.splits)

lemma list_datasets_files_world: "snd (list_datasets env task (Some dn) w) = w"
  by (simp add: list_datasets_def Let_def split: sum.splits)

lemma fetch_single_file_absent:
  assumes "fst (list_datasets env task (Some dn) w) = Inr (Files files)"
      and "filename \<notin> f_name ` set files"
  shows "fetch_single_file env task dn filename w = (Inr False, w)"
proof -
  have l: "list_datasets env task (Some dn) w = (Inr (Files files), w)"
    using assms(1) list_datasets_files_world [of env task dn w]
    by (cases "list_datasets env task (Some dn) w") simp
  have "find (\<lambda>file_info. f_name file_info = filename) files = None"
    using assms(2) by (auto simp: find_None_iff)
  then show ?thesis
    by (simp add: fetch_single_file_def l)
qed

lemma fetch_file_aria2_started:
  "check_aria2 env \<Longrightarrow>
     transfers (snd (fetch_file_aria2 env url p m n w)) = url # transfers w"
  by (simp add: fetch_file_aria2_def Let_def split: proc_result.splits option.splits)

lemma fetch_file_transfers:
  "transfers (snd (fetch_file env url p m n w)) = url # transfers w"
proof (cases "check_aria2 env")
  case True
  obtain b w1 where a: "fetch_file_aria2 env url p m n w = (b, w1)"
    by (cases "fetch_file_aria2 env url p m n w")
  have "transfers w1 = url # transfers w"
    using fetch_file_aria2_started [OF True, of url p m n w] a by simp
  then show ?thesis
    using True by (simp add: fetch_file_def a)
next
  case False
  then show ?thesis
    by (simp add: fetch_file_def fetch_file_fallback_transfers)
qed

lemma fetch_single_file_found:
  assumes "fst (list_datasets env task (Some dn) w) = Inr (Files files)"
      and "find (\<lambda>file_info. f_name file_info = filename) files = Some target"
      and "mkdir_parents (fs w) (path_join [''datasets''] dn) = (None, m)"
  shows "fetch_single_file env task dn filename w
           = fetch_file env (BASE_URL_RAW @ f_key target)
               (path_join (path_join [''datasets''] dn) filename)
               (f_md5 target) (f_size target) (w\<lparr>fs := m\<rparr>)"
proof -
  have l: "list_datasets env task (Some dn) w = (Inr (Files files), w)"
    using assms(1) list_datasets_files_world [of env task dn w]
    by (cases "list_datasets env task (Some dn) w") simp
  show ?thesis
    by (simp add: fetch_single_file_def l assms(2) assms(3) Let_def fetch_file_def)
qed

lemma fetch_dataset_with_file:
  "filename \<noteq> [] \<Longrightarrow>
     fetch_dataset env task dn (Some filename) w = fetch_single_file env task dn filename w"
  by (simp add: fetch_dataset_def)

text \<open>
  Claim C8, as the code has it. \<^verbatim>\<open>fetch_dataset\<close> is called with a file name that is not
  empty (with the empty name it fetches the whole dataset). When no file of the listing
  of the dataset has the name asked for, it returns \<^verbatim>\<open>False\<close> and leaves the world as
  it is: no exception is raised and no transfer is started. Otherwise the first record
  with exactly that name is taken and, once the dataset directory is made, the call is
  the transfer of that one file: of the key, the checksum and the size of that record,
  to the path of that name in the dataset directory; exactly one transfer is started.
\<close>

theorem fetch_dataset_file_by_name:
  "(filename \<noteq> []
      \<and> fst (list_datasets env task (Some dn) w) = Inr (Files files)
      \<and> filename \<notin> f_name ` set files
      \<longrightarrow> fetch_dataset env task dn (Some filename) w = (Inr False, w))
   \<and> (filename' \<noteq> []
      \<and> fst (list_datasets env' task' (Some dn') w') = Inr (Files files')
      \<and> find (\<lambda>file_info. f_name file_info = filename') files' = Some target
      \<and> mkdir_parents (fs w') (path_join [''datasets''] dn') = (None, m)
      \<longrightarrow> target \<in> set files' \<and> f_name target = filename'
          \<and> fetch_dataset env' task' dn' (Some filename') w'
              = fetch_file env' (BASE_URL_RAW @ f_key target)
                  (path_join (path_join [''datasets''] dn') filename')
                  (f_md5 target) (f_size target) (w'\<lparr>fs := m\<rparr>)
          \<and> transfers (snd (fetch_dataset env' task' dn' (Some filename') w'))
              = (BASE_URL_RAW @ f_key target) # transfers w')"
proof (intro conjI impI)
  assume "filename \<noteq> []
      \<and> fst (list_datasets env task (Some dn) w) = Inr (Files files)
      \<and> filename \<notin> f_name ` set files"
  then show "fetch_dataset env task dn (Some filename) w = (Inr False, w)"
    by (simp add: fetch_dataset_with_file fetch_single_file_absent)
next
  assume a: "filename' \<noteq> []
      \<and> fst (list_datasets env' task' (Some dn') w') = Inr (Files files')
      \<and> find (\<lambda>file_info. f_name file_info = filename') files' = Some target
      \<and> mkdir_parents (fs w') (path_join [''datasets''] dn') = (None, m)"
  then show "target \<in> set files'" and "f_name target = filename'"
    by (auto simp: find_Some_iff)
  from a have a0: "filename' \<noteq> []"
    and a1: "fst (list_datasets env' task' (Some dn') w') = Inr (Files files')"
    and a2: "find (\<lambda>file_info. f_name file_info = filename') files' = Some target"
    and a3: "mkdir_parents (fs w') (path_join [''datasets''] dn') = (None, m)"
    by simp_all
  show r: "fetch_dataset env' task' dn' (Some filename') w'
              = fetch_file env' (BASE_URL_RAW @ f_key target)
                  (path_join (path_join [''datasets''] dn') filename')
                  (f_md5 target) (f_size target) (w'\<lparr>fs := m\<rparr>)"
    using fetch_single_file_found [OF a1 a2 a3] a0 by (simp add: fetch_dataset_with_file)
  show "transfers (snd (fetch_dataset env' task' dn' (Some filename') w'))
              = (BASE_URL_RAW @ f_key target) # transfers w'"
    by (simp add: r fetch_file_transfers)
qed

lemma files_of_a:
  "fst (list_datasets env_three_keys ''denoising'' (Some ''a'') w) = Inr (Files [file_x])"
  by (simp add: list_datasets_def get_s3_denoising datasets_prefix_denoising Let_def
      env_three_keys_def serve_def three_keys_def entry_def startswith_def
      endswith_def content_size_def strip_chars_def file_x_def)

lemma mkdir_datasets_a:
  "mkdir_parents (fs world0) (path_join [''datasets''] ''a'')
     = (None, [[''datasets''] \<mapsto> Dir, [''datasets'', ''a''] \<mapsto> Dir])"
  by (simp add: path_join_def world0_def node_at_def
      mkdir_parents.simps [of _ "[''datasets'', ''a'']"] mkdir_parents.simps [of _ "[''datasets'']"])

text \<open>The theorem of C8 at the dataset \<open>a\<close>, for the names \<open>nope\<close> and \<open>x\<close>.\<close>

theorem fetch_dataset_file_by_name_witness:
  "''nope'' \<noteq> []
   \<and> fst (list_datasets env_three_keys ''denoising'' (Some ''a'') world0) = Inr (Files [file_x])
   \<and> ''nope'' \<notin> f_name ` set [file_x]
   \<and> fetch_dataset env_three_keys ''denoising'' ''a'' (Some ''nope'') world0 = (Inr False, world0)
   \<and> ''x'' \<noteq> []
   \<and> find (\<lambda>file_info. f_name file_info = ''x'') [file_x] = Some file_x
   \<and> mkdir_parents (fs world0) (path_join [''datasets''] ''a'')
       = (None, [[''datasets''] \<mapsto> Dir, [''datasets'', ''a''] \<mapsto> Dir])
   \<and> fetch_dataset env_three_keys ''denoising'' ''a'' (Some ''x'') world0
       = fetch_file env_three_keys (BASE_URL_RAW @ f_key file_x)
           (path_join (path_join [''datasets''] ''a'') ''x'') (f_md5 file_x) (f_size file_x)
           (world0\<lparr>fs := [[''datasets''] \<mapsto> Dir, [''datasets'', ''a''] \<mapsto> Dir]\<rparr>)
   \<and> transfers (snd (fetch_dataset env_three_keys ''denoising'' ''a'' (Some ''x'') world0))
       = (BASE_URL_RAW @ f_key file_x) # transfers world0"
proof -
  note t = fetch_dataset_file_by_name [where filename = "''nope''" and env = env_three_keys
      and task = "''denoising''" and dn = "''a''" and w = world0 and files = "[file_x]"
      and filename' = "''x''" and env' = env_three_keys and task' = "''denoising''"
      and dn' = "''a''" and w' = world0 and files' = "[file_x]" and target = file_x
      and m = "[[''datasets''] \<mapsto> Dir, [''datasets'', ''a''] \<mapsto> Dir]"]
  have n1: "''nope'' \<noteq> []" by simp
  have n2: "''x'' \<noteq> []" by simp
  have h0: "fst (list_datasets env_three_keys ''denoising'' (Some ''a'') world0) = Inr (Files [file_x])"
    by (rule files_of_a)
  have h1: "''nope'' \<notin> f_name ` set [file_x]"
    by (simp add: file_x_def)
  have h2: "find (\<lambda>file_info. f_name file_info = ''x'') [file_x] = Some file_x"
    by (simp add: file_x_def)
  have c1: "fetch_dataset env_three_keys ''denoising'' ''a'' (Some ''nope'') world0 = (Inr False, world0)"
    by (rule mp [OF conjunct1 [OF t] conjI [OF n1 conjI [OF h0 h1]]])
  note c = mp [OF conjunct2 [OF t] conjI [OF n2 conjI [OF h0 conjI [OF h2 mkdir_datasets_a]]]]
  have c2: "fetch_dataset env_three_keys ''denoising'' ''a'' (Some ''x'') world0
       = fetch_file env_three_keys (BASE_URL_RAW @ f_key file_x)
           (path_join (path_join [''datasets''] ''a'') ''x'') (f_md5 file_x) (f_size file_x)
           (world0\<lparr>fs := [[''datasets''] \<mapsto> Dir, [''datasets'', ''a''] \<mapsto> Dir]\<rparr>)"
    by (rule conjunct1 [OF conjunct2 [OF conjunct2 [OF c]]])
  have c3: "transfers (snd (fetch_dataset env_three_keys ''denoising'' ''a'' (Some ''x'') world0))
       = (BASE_URL_RAW @ f_key file_x) # transfers world0"
    by (rule conjunct2 [OF conjunct2 [OF conjunct2 [OF c]]])
  show ?thesis
    by (intro conjI n1 h0 h1 c1 n2 h2 mkdir_datasets_a c2 c3)
qed

text \<open>
  Claim C8 as stated fails: for a name that is not in the listing the result of
  \<^verbatim>\<open>fetch_dataset\<close> is the boolean \<^verbatim>\<open>False\<close>, not an exception.
\<close>

theorem fetch_dataset_not_found_counterexample:
  "fst (list_datasets env_three_keys ''denoising'' (Some ''a'') world0) = Inr (Files [file_x])
   \<and> ''nope'' \<notin> f_name ` set [file_x]
   \<and> fst (fetch_dataset env_three_keys ''denoising'' ''a'' (Some ''nope'') world0) = Inr False
   \<and> \<not> isl (fst (fetch_dataset env_three_keys ''denoising'' ''a'' (Some ''nope'') world0))"
proof -
  have h0: "fst (list_datasets env_three_keys ''denoising'' (Some ''a'') world0) = Inr (Files [file_x])"
    by (rule files_of_a)
  have h1: "''nope'' \<notin> f_name ` set [file_x]"
    by (simp add: file_x_def)
  have r: "fetch_dataset env_three_keys ''denoising'' ''a'' (Some ''nope'') world0 = (Inr False, world0)"
    using fetch_single_file_absent [OF h0 h1] by (simp add: fetch_dataset_with_file)
  have c1: "fst (fetch_dataset env_three_keys ''denoising'' ''a'' (Some ''nope'') world0) = Inr False"
    by (simp add: r)
  have c2: "\<not> isl (fst (fetch_dataset env_three_keys ''denoising'' ''a'' (Some ''nope'') world0))"
    by (simp add: r)
  show ?thesis
    by (intro conjI h0 h1 c1 c2)
qed

subsection \<open>Fetching a task\<close>

lemma fetch_task_refused:
  assumes "fst (list_datasets env task None w) = Inr (Datasets ds)"
      and "stdin w = line # rest"
      and "strip line \<noteq> ''yes I am sure''"
  shows "fst (fetch_task env task w) = Inr False
         \<and> transfers (snd (fetch_task env task w)) = transfers w"
proof -
  obtain r w1 where l: "list_datasets env task None w = (r, w1)"
    by (cases "list_datasets env task None w")
  have r: "r = Inr (Datasets ds)"
    using assms(1) l by simp
  have "same_io w w1"
    using list_datasets_io [of w env task None] l by simp
  then have s: "stdin w1 = line # rest" and t: "transfers w1 = transfers w"
    using assms(2) by (simp_all add: same_io_def)
  show ?thesis
    using assms(3) by (simp add: fetch_task_def l r s t Let_def)
qed

lemma fetch_task_gate:
  assumes "\<not> confirmation_given w"
  shows "fst (fetch_task env task w) \<noteq> Inr True
         \<and> transfers (snd (fetch_task env task w)) = transfers w"
proof -
  obtain r w1 where l: "list_datasets env task None w = (r, w1)"
    by (cases "list_datasets env task None w")
  have "same_io w w1"
    using list_datasets_io [of w env task None] l by simp
  then have s: "stdin w1 = stdin w" and t: "transfers w1 = transfers w"
    by (simp_all add: same_io_def)
  show ?thesis
  proof (cases r)
    case (Inl e)
    then show ?thesis using t by (simp add: fetch_task_def l)
  next
    case (Inr ls)
    show ?thesis
    proof (cases ls)
      case (Files fl)
      then show ?thesis using t Inr by (simp add: fetch_task_def l)
    next
      case (Datasets ds)
      show ?thesis
      proof (cases "stdin w")
        case Nil
        then show ?thesis
          using t Inr Datasets by (simp add: fetch_task_def l s)
      next
        case (Cons line rest)
        then have "strip line \<noteq> ''yes I am sure''"
          using assms by (simp add: confirmation_given_def)
        then show ?thesis
          using t Inr Datasets Cons by (simp add: fetch_task_def l s Let_def)
      qed
    qed
  qed
qed

text \<open>
  Claim C7, as the code has it. When the datasets of the task are listed and the answer
  read from standard input is, after \<^verbatim>\<open>strip()\<close>, anything else than the phrase
  \<^verbatim>\<open>yes I am sure\<close>, \<^verbatim>\<open>fetch_task\<close> returns \<^verbatim>\<open>False\<close> and starts no transfer. And in every
  run in which the next line of standard input is not, stripped, that phrase (also when
  there is no line, or the listing raises), no transfer is started and the call does
  not return \<^verbatim>\<open>True\<close>: no transfer precedes the confirmation.
\<close>

theorem fetch_task_confirmation_gate:
  "(fst (list_datasets env task None w) = Inr (Datasets ds)
      \<and> stdin w = line # rest \<and> strip line \<noteq> ''yes I am sure''
      \<longrightarrow> fst (fetch_task env task w) = Inr False
          \<and> transfers (snd (fetch_task env task w)) = transfers w)
   \<and> (\<not> confirmation_given w' \<longrightarrow>
        fst (fetch_task env' task' w') \<noteq> Inr True
        \<and> transfers (snd (fetch_task env' task' w')) = transfers w')"
  by (simp add: fetch_task_refused fetch_task_gate)

lemma list_datasets_empty_file:
  "fst (list_datasets env_empty_file ''denoising'' None (world0\<lparr>stdin := [''yes'']\<rparr>))
     = Inr (Datasets [\<lparr>d_name = ''a'', d_size = 0, d_size_human = '''', d_file_count = 1\<rparr>])"
  by (simp add: run_defs env_empty_file_def empty_file_key_def)

text \<open>The theorem of C7 at the answer \<open>yes\<close>.\<close>

theorem fetch_task_confirmation_gate_witness:
  "fst (list_datasets env_empty_file ''denoising'' None (world0\<lparr>stdin := [''yes'']\<rparr>))
     = Inr (Datasets [\<lparr>d_name = ''a'', d_size = 0, d_size_human = '''', d_file_count = 1\<rparr>])
   \<and> stdin (world0\<lparr>stdin := [''yes'']\<rparr>) = ''yes'' # []
   \<and> strip ''yes'' \<noteq> ''yes I am sure''
   \<and> \<not> confirmation_given (world0\<lparr>stdin := [''yes'']\<rparr>)
   \<and> fst (fetch_task env_empty_file ''denoising'' (world0\<lparr>stdin := [''yes'']\<rparr>)) = Inr False
   \<and> transfers (snd (fetch_task env_empty_file ''denoising'' (world0\<lparr>stdin := [''yes'']\<rparr>)))
       = transfers (world0\<lparr>stdin := [''yes'']\<rparr>)
   \<and> fst (fetch_task env_empty_file ''denoising'' (world0\<lparr>stdin := [''yes'']\<rparr>)) \<noteq> Inr True"
proof -
  note t = fetch_task_confirmation_gate [where env = env_empty_file and task = "''denoising''"
      and w = "world0\<lparr>stdin := [''yes'']\<rparr>" and line = "''yes''" and rest = "[]"
      and ds = "[\<lparr>d_name = ''a'', d_size = 0, d_size_human = '''', d_file_count = 1\<rparr>]"
      and env' = env_empty_file and task' = "''denoising''"
      and w' = "world0\<lparr>stdin := [''yes'']\<rparr>"]
  have h1: "stdin (world0\<lparr>stdin := [''yes'']\<rparr>) = ''yes'' # []"
    by simp
  have h2: "strip ''yes'' \<noteq> ''yes I am sure''"
    by (simp add: strip_def isspace_def)
  have h3: "\<not> confirmation_given (world0\<lparr>stdin := [''yes'']\<rparr>)"
    by (simp add: confirmation_given_def strip_def isspace_def)
  note c = mp [OF conjunct1 [OF t] conjI [OF list_datasets_empty_file conjI [OF h1 h2]]]
  note d = mp [OF conjunct2 [OF t] h3]
  show ?thesis
    by (intro conjI list_datasets_empty_file h1 h2 h3 conjunct1 [OF c] conjunct2 [OF c]
        conjunct1 [OF d])
qed

text \<open>
  Claim C7 as stated fails for an answer that is not the phrase itself but the phrase
  after a space: the files are downloaded and the call returns \<^verbatim>\<open>True\<close>.
\<close>

theorem fetch_task_confirmation_counterexample:
  "'' yes I am sure'' \<noteq> ''yes I am sure''
   \<and> fst (fetch_task env_empty_file ''denoising'' (world0\<lparr>stdin := ['' yes I am sure'']\<rparr>)) = Inr True
   \<and> transfers (snd (fetch_task env_empty_file ''denoising'' (world0\<lparr>stdin := ['' yes I am sure'']\<rparr>)))
       = [BASE_URL_RAW @ ''resources/denoising/datasets/a/x'']"
proof -
  have c1: "fst (fetch_task env_empty_file ''denoising'' (world0\<lparr>stdin := ['' yes I am sure'']\<rparr>)) = Inr True"
    by (simp add: run_defs env_empty_file_def empty_file_key_def)
  have c2: "transfers (snd (fetch_task env_empty_file ''denoising'' (world0\<lparr>stdin := ['' yes I am sure'']\<rparr>)))
       = [BASE_URL_RAW @ ''resources/denoising/datasets/a/x'']"
    by (simp add: run_defs env_empty_file_def empty_file_key_def)
  show ?thesis
    using c1 c2 by simp
qed

end
